theory Spec2Isabelle
  imports Main "HOL-Library.Sublist"
begin

section \<open>The structured error value of package baseError\<close>

text \<open>
  A shallow embedding of \<^verbatim>\<open>baseError.go\<close>: the \<^verbatim>\<open>Error\<close> struct, its mutator
  methods, the functional options with their accumulator \<^verbatim>\<open>ErrorOption\<close>, the
  constructors, \<^verbatim>\<open>ApplyOption\<close>, the stack capture \<^verbatim>\<open>callers\<close> and the three
  classification predicates.

  Conventions of the embedding.
  \<^item> A Go \<^verbatim>\<open>error\<close> interface value is \<open>ErrNil\<close> (the nil interface), \<open>ErrPtr p\<close>
    (dynamic type \<^verbatim>\<open>*baseError.Error\<close>, where \<open>p = None\<close> is a nil pointer stored in
    a non-nil interface), or \<open>ErrForeign t s\<close> (any other dynamic type, with the name
    \<open>t\<close> that \<^verbatim>\<open>reflect.TypeOf(err).String()\<close> reports and the text \<open>s\<close> its
    \<^verbatim>\<open>Error()\<close> method returns).
  \<^item> A \<^verbatim>\<open>*Error\<close> is an \<open>Error option\<close>; \<open>None\<close> is the nil pointer.
  \<^item> A run-time panic is the left summand of a result \<open>panic + 'a\<close>.
  \<^item> Functions that write through a pointer return the updated pointee; for the merge of
    the options, which can panic after it has written, the value the pointer refers to
    when the call ends is given as well.
  \<^item> \<^verbatim>\<open>fmt.Sprintf\<close> belongs to the Go standard library; every operation that calls
    it takes it as the parameter \<open>sprintf\<close>.
  \<^item> The call stack that \<^verbatim>\<open>runtime.Caller\<close> and \<^verbatim>\<open>runtime.Callers\<close> inspect is the
    parameter \<open>rt\<close>.
\<close>

subsection \<open>Data\<close>

text \<open>
  What ends a run before it returns: the three run-time panics the package can raise, and
  \<open>OutOfMemory\<close>, the fatal error of an allocation the process has no memory for.
\<close>

datatype panic =
  NilPointerDereference | TypeAssertionFailed | MakeSliceLenOutOfRange | OutOfMemory

text \<open>The operands of \<^verbatim>\<open>fmt.Sprintf\<close> (Go's \<^verbatim>\<open>any\<close>): integers and strings.\<close>

datatype any = AInt int | AString string

text \<open>\<^verbatim>\<open>type stack []uintptr\<close>: program counters, opaque frame identifiers.\<close>

type_synonym stack = "nat list"

text \<open>
  \<^verbatim>\<open>type Error struct { Code; Msg; System; Chain; cause; *stack }\<close>. The two unexported
  fields are named after their accessor methods \<^verbatim>\<open>Cause()\<close> and \<^verbatim>\<open>Stack()\<close>.
\<close>

datatype Error =
  Error (Code: string) (Msg: string) (System: bool) (Chain: "string list")
        (Cause: error) (Stack: "stack option")
and error = ErrNil | ErrPtr "Error option" | ErrForeign string string

definition set_Code :: "string \<Rightarrow> Error \<Rightarrow> Error" where
  "set_Code v b = Error v (Msg b) (System b) (Chain b) (Cause b) (Stack b)"

definition set_Msg :: "string \<Rightarrow> Error \<Rightarrow> Error" where
  "set_Msg v b = Error (Code b) v (System b) (Chain b) (Cause b) (Stack b)"

definition set_System :: "bool \<Rightarrow> Error \<Rightarrow> Error" where
  "set_System v b = Error (Code b) (Msg b) v (Chain b) (Cause b) (Stack b)"

definition set_Chain :: "string list \<Rightarrow> Error \<Rightarrow> Error" where
  "set_Chain v b = Error (Code b) (Msg b) (System b) v (Cause b) (Stack b)"

definition set_Cause :: "error \<Rightarrow> Error \<Rightarrow> Error" where
  "set_Cause v b = Error (Code b) (Msg b) (System b) (Chain b) v (Stack b)"

definition set_Stack :: "stack option \<Rightarrow> Error \<Rightarrow> Error" where
  "set_Stack v b = Error (Code b) (Msg b) (System b) (Chain b) (Cause b) v"

text \<open>\<^verbatim>\<open>type ErrorOption struct\<close>, the accumulator the options write to.\<close>

record ErrorOption =
  code :: string
  msg :: string
  system :: bool
  chain :: "string list"
  cause :: error
  depth :: int
  msgArgs :: "any list"

text \<open>\<^verbatim>\<open>&ErrorOption{}\<close>: every field at its zero value.\<close>

definition ErrorOption_zero :: ErrorOption where
  "ErrorOption_zero =
     \<lparr>code = [], msg = [], system = False, chain = [], cause = ErrNil, depth = 0,
      msgArgs = []\<rparr>"

text \<open>
  \<^verbatim>\<open>type Option func(*ErrorOption)\<close>. The closures of the package are its eight option
  constructors; \<open>NilOption\<close> is a nil function value in the option list. The variadic
  parameters are lists.
\<close>

datatype Option =
    WithCode string
  | WithMsg string
  | WithMsgFormat string "any list"
  | WithMsgArgs "any list"
  | WithSystem
  | WithChain "string list"
  | WithCause error
  | WithStack "int list"
  | NilOption

subsection \<open>The call stack and its capture\<close>

text \<open>
  A frame has the source file \<^verbatim>\<open>runtime.Caller\<close> reports and its program counter.
  \<open>frames rt\<close> is the stack as \<^verbatim>\<open>callers\<close> sees it: position 0 is \<^verbatim>\<open>callers\<close> itself
  (what \<^verbatim>\<open>runtime.Caller(0)\<close> identifies), position 1 its caller, and so on.
  \<^verbatim>\<open>runtime.Callers\<close> counts from its own frame, whose program counter is \<open>selfPC rt\<close>,
  so its position \<open>k + 1\<close> is position \<open>k\<close> of \<^verbatim>\<open>runtime.Caller\<close>. \<open>sourceDir rt\<close> is
  the package variable of that name, assigned once by \<^verbatim>\<open>init\<close>. \<open>makeLimit rt\<close> is
  the largest length of a \<^verbatim>\<open>[]uintptr\<close> the process has memory for.
\<close>

record frame =
  srcFile :: string
  pc :: nat

record runtime =
  sourceDir :: string
  selfPC :: nat
  frames :: "frame list"
  makeLimit :: int

text \<open>\<^verbatim>\<open>_, file, _, ok := runtime.Caller(i)\<close>.\<close>

definition runtime_Caller :: "runtime \<Rightarrow> nat \<Rightarrow> string \<times> bool" where
  "runtime_Caller rt i =
     (if i < length (frames rt) then (srcFile (frames rt ! i), True) else ([], False))"

text \<open>
  \<^verbatim>\<open>n := runtime.Callers(s, pcs)\<close> followed by \<^verbatim>\<open>pcs[0:n]\<close>, for a buffer of length
  \<open>len\<close>.
\<close>

definition runtime_Callers :: "runtime \<Rightarrow> nat \<Rightarrow> nat \<Rightarrow> stack" where
  "runtime_Callers rt s len = take len (drop s (selfPC rt # map pc (frames rt)))"

text \<open>The condition of the \<^verbatim>\<open>if\<close> inside the loop of \<^verbatim>\<open>callers\<close>.\<close>

definition caller_frame :: "runtime \<Rightarrow> nat \<Rightarrow> bool" where
  "caller_frame rt i =
     (case runtime_Caller rt i of
        (f, ok) \<Rightarrow> ok \<and> (\<not> prefix (sourceDir rt) f \<or> suffix ''_test.go'' f))"

text \<open>
  The loop \<^verbatim>\<open>for i := skip; i < 15; i++\<close> of \<^verbatim>\<open>callers\<close>, returning the final value
  of \<^verbatim>\<open>s\<close>; the argument \<open>s\<close> is its initial value \<^verbatim>\<open>skip\<close>.
\<close>

function callers_scan :: "runtime \<Rightarrow> nat \<Rightarrow> nat \<Rightarrow> nat" where
  "callers_scan rt s i =
     (if i < 15 then (if caller_frame rt i then i + 1 else callers_scan rt s (i + 1))
      else s)"
  by pat_completeness auto
termination
  by (relation "measure (\<lambda>(rt, s, i). 15 - i)") auto

declare callers_scan.simps [simp del]

text \<open>
  How \<^verbatim>\<open>make([]uintptr, n)\<close> fails, if it does. \<^verbatim>\<open>runtime.makeslice\<close> panics with
  \<^verbatim>\<open>len out of range\<close> for a negative length and for one whose \<open>8 * n\<close> bytes exceed the
  \<open>2 ^ 48\<close> bytes a 64-bit platform can address on its heap, that is for
  \<open>n > 2 ^ 45\<close>; below that bound the allocation of a length that is not zero fails
  when the process has no memory for it.
\<close>

definition make_fails :: "runtime \<Rightarrow> int \<Rightarrow> panic option" where
  "make_fails rt n =
     (if n < 0 \<or> 2 ^ 45 < n then Some MakeSliceLenOutOfRange
      else if 0 < n \<and> makeLimit rt < n then Some OutOfMemory
      else None)"

text \<open>
  \<^verbatim>\<open>func callers(skip int, depth int) *stack\<close>. The package calls it with
  \<^verbatim>\<open>skip = 3\<close> only; the depth is whatever the caller of \<^verbatim>\<open>WithStack\<close> passed, when that
  is positive.
\<close>

definition callers :: "runtime \<Rightarrow> nat \<Rightarrow> int \<Rightarrow> panic + stack" where
  "callers rt skip d =
     (let s = callers_scan rt skip skip
      in case make_fails rt d of
           Some p \<Rightarrow> Inl p
         | None \<Rightarrow> Inr (runtime_Callers rt s (nat d)))"

subsection \<open>Methods of \<^verbatim>\<open>*Error\<close>\<close>

text \<open>
  The methods are given for a non-nil receiver, as functions of the pointee; where the
  package itself calls a method through a possibly nil pointer (\<open>error_Error\<close> below),
  the nil case is a panic.
\<close>

definition Error_WithCode :: "Error \<Rightarrow> string \<Rightarrow> Error" where
  "Error_WithCode b c = set_Code c b"

definition Error_WithMsg :: "Error \<Rightarrow> string \<Rightarrow> Error" where
  "Error_WithMsg b m = set_Msg m b"

definition Error_WithMsgArgs :: "(string \<Rightarrow> any list \<Rightarrow> string) \<Rightarrow> Error \<Rightarrow> any list \<Rightarrow> Error" where
  "Error_WithMsgArgs sprintf b args = set_Msg (sprintf (Msg b) args) b"

definition Error_WithMsgFormat ::
    "(string \<Rightarrow> any list \<Rightarrow> string) \<Rightarrow> Error \<Rightarrow> string \<Rightarrow> any list \<Rightarrow> Error" where
  "Error_WithMsgFormat sprintf b format args = set_Msg (sprintf format args) b"

definition Error_WithSystem :: "Error \<Rightarrow> Error" where
  "Error_WithSystem b = set_System True b"

definition Error_WithChain :: "Error \<Rightarrow> string list \<Rightarrow> Error" where
  "Error_WithChain b ch = set_Chain (Chain b @ ch) b"

definition Error_WithCause :: "Error \<Rightarrow> error \<Rightarrow> Error" where
  "Error_WithCause b c = set_Cause c b"

text \<open>
  \<^verbatim>\<open>var d = 3; if len(depth) > 0 && depth[0] > 0 { d = depth[0] }\<close>, shared by the
  method \<^verbatim>\<open>WithStack\<close> and the option of the same name.
\<close>

definition stack_depth :: "int list \<Rightarrow> int" where
  "stack_depth ds = (if length ds > 0 \<and> hd ds > 0 then hd ds else 3)"

definition Error_WithStack :: "runtime \<Rightarrow> Error \<Rightarrow> int list \<Rightarrow> panic + Error" where
  "Error_WithStack rt b ds =
     (let d = stack_depth ds
      in case callers rt 3 d of
           Inl p \<Rightarrow> Inl p
         | Inr st \<Rightarrow> Inr (set_Stack (Some st) b))"

text \<open>\<^verbatim>\<open>func (b *Error) Error() string\<close>.\<close>

definition Error_Error :: "Error \<Rightarrow> string" where
  "Error_Error b =
     (if Code b \<noteq> [] then ''['' @ Code b @ ''] '' @ Msg b else Msg b)"

text \<open>
  \<^verbatim>\<open>err.Error()\<close> on an interface value that is not the nil interface: dynamic
  dispatch. On a nil \<^verbatim>\<open>*Error\<close> the method reads \<^verbatim>\<open>b.Code\<close> and panics.
\<close>

fun error_Error :: "error \<Rightarrow> panic + string" where
  "error_Error ErrNil = Inl NilPointerDereference"
| "error_Error (ErrPtr None) = Inl NilPointerDereference"
| "error_Error (ErrPtr (Some b)) = Inr (Error_Error b)"
| "error_Error (ErrForeign t s) = Inr s"

subsection \<open>Options and their merge\<close>

text \<open>The body of the closure each option constructor returns; a nil option is skipped.\<close>

fun apply_option :: "(string \<Rightarrow> any list \<Rightarrow> string) \<Rightarrow> Option \<Rightarrow> ErrorOption \<Rightarrow> ErrorOption" where
  "apply_option sprintf (WithCode c) opts = opts\<lparr>code := c\<rparr>"
| "apply_option sprintf (WithMsg m) opts = opts\<lparr>msg := m\<rparr>"
| "apply_option sprintf (WithMsgFormat format args) opts = opts\<lparr>msg := sprintf format args\<rparr>"
| "apply_option sprintf (WithMsgArgs args) opts = opts\<lparr>msgArgs := args\<rparr>"
| "apply_option sprintf WithSystem opts = opts\<lparr>system := True\<rparr>"
| "apply_option sprintf (WithChain ch) opts = opts\<lparr>chain := chain opts @ ch\<rparr>"
| "apply_option sprintf (WithCause c) opts = opts\<lparr>cause := c\<rparr>"
| "apply_option sprintf (WithStack ds) opts = opts\<lparr>depth := stack_depth ds\<rparr>"
| "apply_option sprintf NilOption opts = opts"

text \<open>The loop \<^verbatim>\<open>for _, apply := range opts\<close> of \<^verbatim>\<open>ApplyOption\<close>.\<close>

fun apply_options ::
    "(string \<Rightarrow> any list \<Rightarrow> string) \<Rightarrow> Option list \<Rightarrow> ErrorOption \<Rightarrow> ErrorOption" where
  "apply_options sprintf [] errOpt = errOpt"
| "apply_options sprintf (apply # opts) errOpt =
     apply_options sprintf opts (apply_option sprintf apply errOpt)"

text \<open>
  The merge on a nil \<^verbatim>\<open>err\<close>: the first of the seven conditional assignments whose
  condition holds dereferences the pointer and panics; the sixth calls \<^verbatim>\<open>callers\<close>
  before it writes, so a capture that fails is what ends the run there.
\<close>

definition merge_option_nil :: "runtime \<Rightarrow> ErrorOption \<Rightarrow> panic + Error option" where
  "merge_option_nil rt errOpt =
     (if code errOpt \<noteq> [] \<or> msg errOpt \<noteq> [] \<or> system errOpt \<or>
         length (chain errOpt) > 0 \<or> cause errOpt \<noteq> ErrNil
      then Inl NilPointerDereference
      else if depth errOpt \<noteq> 0
      then (case callers rt 3 (depth errOpt) of
              Inl p \<Rightarrow> Inl p
            | Inr st \<Rightarrow> Inl NilPointerDereference)
      else if length (msgArgs errOpt) > 0 then Inl NilPointerDereference
      else Inr None)"

text \<open>
  The seven conditional assignments of \<^verbatim>\<open>ApplyOption\<close> on a non-nil \<^verbatim>\<open>err\<close>, in the
  source's order. They write through the pointer, so the result is the pair of the panic
  that ends the run, if one does, and the value \<^verbatim>\<open>err\<close> points to when the run ends. The
  only call that can fail is \<^verbatim>\<open>callers\<close>; the five assignments before it have taken place
  by then, the two after it have not.
\<close>

definition merge_option ::
    "runtime \<Rightarrow> (string \<Rightarrow> any list \<Rightarrow> string) \<Rightarrow> Error \<Rightarrow> ErrorOption
       \<Rightarrow> panic option \<times> Error" where
  "merge_option rt sprintf err errOpt =
     (let e1 = (if code errOpt \<noteq> [] then set_Code (code errOpt) err else err);
          e2 = (if msg errOpt \<noteq> [] then set_Msg (msg errOpt) e1 else e1);
          e3 = (if system errOpt then set_System True e2 else e2);
          e4 = (if length (chain errOpt) > 0 then set_Chain (Chain e3 @ chain errOpt) e3 else e3);
          e5 = (if cause errOpt \<noteq> ErrNil then set_Cause (cause errOpt) e4 else e4)
      in case (if depth errOpt \<noteq> 0
               then (case callers rt 3 (depth errOpt) of
                       Inl p \<Rightarrow> Inl p
                     | Inr st \<Rightarrow> Inr (set_Stack (Some st) e5))
               else Inr e5) of
           Inl p \<Rightarrow> (Some p, e5)
         | Inr e6 \<Rightarrow>
             (None,
              if length (msgArgs errOpt) > 0
              then set_Msg (sprintf (Msg e6) (msgArgs errOpt)) e6 else e6))"

text \<open>
  \<^verbatim>\<open>func ApplyOption(err *Error, opts ...Option) *Error\<close>: what it returns, the pointer
  it was given, or the panic that ends it.
\<close>

definition ApplyOption ::
    "runtime \<Rightarrow> (string \<Rightarrow> any list \<Rightarrow> string) \<Rightarrow> Error option \<Rightarrow> Option list
       \<Rightarrow> panic + Error option" where
  "ApplyOption rt sprintf err opts =
     (if length opts = 0 then Inr err
      else let errOpt = apply_options sprintf opts ErrorOption_zero
           in case err of
                None \<Rightarrow> merge_option_nil rt errOpt
              | Some e \<Rightarrow>
                  (case merge_option rt sprintf e errOpt of
                     (Some p, e') \<Rightarrow> Inl p
                   | (None, e') \<Rightarrow> Inr (Some e')))"

text \<open>
  The value a non-nil \<^verbatim>\<open>err\<close> points to when \<^verbatim>\<open>ApplyOption(err, opts...)\<close> ends, by
  return or by panic.
\<close>

definition ApplyOption_pointee ::
    "runtime \<Rightarrow> (string \<Rightarrow> any list \<Rightarrow> string) \<Rightarrow> Error \<Rightarrow> Option list \<Rightarrow> Error" where
  "ApplyOption_pointee rt sprintf e opts =
     (if length opts = 0 then e
      else snd (merge_option rt sprintf e (apply_options sprintf opts ErrorOption_zero)))"

subsection \<open>Constructors\<close>

definition New ::
    "runtime \<Rightarrow> (string \<Rightarrow> any list \<Rightarrow> string) \<Rightarrow> string \<Rightarrow> Option list \<Rightarrow> panic + Error option" where
  "New rt sprintf m opts =
     ApplyOption rt sprintf (Some (Error [] m False [] ErrNil None)) opts"

definition NewSystem ::
    "runtime \<Rightarrow> (string \<Rightarrow> any list \<Rightarrow> string) \<Rightarrow> string \<Rightarrow> Option list \<Rightarrow> panic + Error option" where
  "NewSystem rt sprintf m opts =
     ApplyOption rt sprintf (Some (Error [] m True [] ErrNil None)) opts"

definition NewCode ::
    "runtime \<Rightarrow> (string \<Rightarrow> any list \<Rightarrow> string) \<Rightarrow> string \<Rightarrow> string \<Rightarrow> Option list
       \<Rightarrow> panic + Error option" where
  "NewCode rt sprintf c m opts =
     ApplyOption rt sprintf (Some (Error c m False [] ErrNil None)) opts"

definition NewSystemCode ::
    "runtime \<Rightarrow> (string \<Rightarrow> any list \<Rightarrow> string) \<Rightarrow> string \<Rightarrow> string \<Rightarrow> Option list
       \<Rightarrow> panic + Error option" where
  "NewSystemCode rt sprintf c m opts =
     ApplyOption rt sprintf (Some (Error c m True [] ErrNil None)) opts"

definition NewWrap ::
    "runtime \<Rightarrow> (string \<Rightarrow> any list \<Rightarrow> string) \<Rightarrow> error \<Rightarrow> Option list \<Rightarrow> panic + Error option" where
  "NewWrap rt sprintf err opts =
     (if err = ErrNil then Inr None
      else case error_Error err of
             Inl p \<Rightarrow> Inl p
           | Inr m \<Rightarrow> ApplyOption rt sprintf (Some (Error [] m False [] err None)) opts)"

definition NewSystemWrap ::
    "runtime \<Rightarrow> (string \<Rightarrow> any list \<Rightarrow> string) \<Rightarrow> error \<Rightarrow> Option list \<Rightarrow> panic + Error option" where
  "NewSystemWrap rt sprintf err opts =
     (if err = ErrNil then Inr None
      else case error_Error err of
             Inl p \<Rightarrow> Inl p
           | Inr m \<Rightarrow> ApplyOption rt sprintf (Some (Error [] m True [] err None)) opts)"

definition NewCodeWrap ::
    "runtime \<Rightarrow> (string \<Rightarrow> any list \<Rightarrow> string) \<Rightarrow> string \<Rightarrow> error \<Rightarrow> Option list
       \<Rightarrow> panic + Error option" where
  "NewCodeWrap rt sprintf c err opts =
     (if err = ErrNil then Inr None
      else case error_Error err of
             Inl p \<Rightarrow> Inl p
           | Inr m \<Rightarrow> ApplyOption rt sprintf (Some (Error c m False [] err None)) opts)"

definition NewSystemCodeWrap ::
    "runtime \<Rightarrow> (string \<Rightarrow> any list \<Rightarrow> string) \<Rightarrow> string \<Rightarrow> error \<Rightarrow> Option list
       \<Rightarrow> panic + Error option" where
  "NewSystemCodeWrap rt sprintf c err opts =
     (if err = ErrNil then Inr None
      else case error_Error err of
             Inl p \<Rightarrow> Inl p
           | Inr m \<Rightarrow> ApplyOption rt sprintf (Some (Error c m True [] err None)) opts)"

text \<open>\<^verbatim>\<open>func Clone(err *Error, opts ...Option) *Error\<close>; the struct literal leaves the
  stack pointer at nil.\<close>

definition Clone ::
    "runtime \<Rightarrow> (string \<Rightarrow> any list \<Rightarrow> string) \<Rightarrow> Error option \<Rightarrow> Option list
       \<Rightarrow> panic + Error option" where
  "Clone rt sprintf err opts =
     (case err of
        None \<Rightarrow> Inr None
      | Some b \<Rightarrow>
          ApplyOption rt sprintf
            (Some (Error (Code b) (Msg b) (System b) (Chain b) (Cause b) None)) opts)"

subsection \<open>Classification predicates\<close>

text \<open>
  \<^verbatim>\<open>reflect.TypeOf(err)\<close> is the nil \<^verbatim>\<open>Type\<close> for the nil interface, on which
  \<^verbatim>\<open>.String()\<close> panics; otherwise the name of the dynamic type.
\<close>

fun reflect_TypeOf :: "error \<Rightarrow> string option" where
  "reflect_TypeOf ErrNil = None"
| "reflect_TypeOf (ErrPtr p) = Some ''*baseError.Error''"
| "reflect_TypeOf (ErrForeign t s) = Some t"

text \<open>
  \<^verbatim>\<open>err.(*Error).System\<close>: the single-value type assertion panics on another dynamic
  type, the field read on a nil pointer.
\<close>

fun assert_System :: "error \<Rightarrow> panic + bool" where
  "assert_System ErrNil = Inl TypeAssertionFailed"
| "assert_System (ErrForeign t s) = Inl TypeAssertionFailed"
| "assert_System (ErrPtr None) = Inl NilPointerDereference"
| "assert_System (ErrPtr (Some b)) = Inr (System b)"

definition IsBaseError :: "error \<Rightarrow> panic + bool" where
  "IsBaseError err =
     (case reflect_TypeOf err of
        None \<Rightarrow> Inl NilPointerDereference
      | Some t \<Rightarrow> Inr (t = ''*baseError.Error''))"

definition IsSystemError :: "error \<Rightarrow> panic + bool" where
  "IsSystemError err =
     (case reflect_TypeOf err of
        None \<Rightarrow> Inl NilPointerDereference
      | Some t \<Rightarrow>
          if t = ''*baseError.Error''
          then (case assert_System err of Inl p \<Rightarrow> Inl p | Inr sys \<Rightarrow> Inr sys)
          else Inr False)"

definition IsNotSystemError :: "error \<Rightarrow> panic + bool" where
  "IsNotSystemError err =
     (case reflect_TypeOf err of
        None \<Rightarrow> Inl NilPointerDereference
      | Some t \<Rightarrow>
          if t = ''*baseError.Error''
          then (case assert_System err of Inl p \<Rightarrow> Inl p | Inr sys \<Rightarrow> Inr (\<not> sys))
          else Inr False)"

section \<open>Vocabulary of the properties\<close>

subsection \<open>Which option targets which field\<close>

text \<open>
  An option targets the field its closure assigns in the accumulator, and through the
  merge the field of the error value of the same name. The message of an error value is the
  target of three options: the template options \<open>WithMsg\<close> and \<open>WithMsgFormat\<close>, and
  \<open>WithMsgArgs\<close>.
\<close>

fun sets_code :: "Option \<Rightarrow> bool" where
  "sets_code (WithCode c) = True"
| "sets_code opt = False"

fun sets_template :: "Option \<Rightarrow> bool" where
  "sets_template (WithMsg m) = True"
| "sets_template (WithMsgFormat format args) = True"
| "sets_template opt = False"

fun sets_args :: "Option \<Rightarrow> bool" where
  "sets_args (WithMsgArgs args) = True"
| "sets_args opt = False"

definition sets_msg :: "Option \<Rightarrow> bool" where
  "sets_msg opt \<longleftrightarrow> sets_template opt \<or> sets_args opt"

fun sets_system :: "Option \<Rightarrow> bool" where
  "sets_system WithSystem = True"
| "sets_system opt = False"

fun sets_chain :: "Option \<Rightarrow> bool" where
  "sets_chain (WithChain ch) = True"
| "sets_chain opt = False"

fun sets_cause :: "Option \<Rightarrow> bool" where
  "sets_cause (WithCause c) = True"
| "sets_cause opt = False"

fun sets_stack :: "Option \<Rightarrow> bool" where
  "sets_stack (WithStack ds) = True"
| "sets_stack opt = False"

text \<open>
  The template of the last template option of a list and the operands of its last
  \<open>WithMsgArgs\<close>; the last argument is the value when the list has none.
\<close>

fun final_template :: "(string \<Rightarrow> any list \<Rightarrow> string) \<Rightarrow> Option list \<Rightarrow> string \<Rightarrow> string" where
  "final_template sprintf [] t = t"
| "final_template sprintf (WithMsg m # opts) t = final_template sprintf opts m"
| "final_template sprintf (WithMsgFormat format args # opts) t =
     final_template sprintf opts (sprintf format args)"
| "final_template sprintf (opt # opts) t = final_template sprintf opts t"

fun final_args :: "Option list \<Rightarrow> any list \<Rightarrow> any list" where
  "final_args [] as = as"
| "final_args (WithMsgArgs args # opts) as = final_args opts args"
| "final_args (opt # opts) as = final_args opts as"

text \<open>
  The error of the last \<open>WithCause\<close> of a list and the depth its last \<open>WithStack\<close>
  asks for; again the last argument is the value when the list has none.
\<close>

fun final_cause :: "Option list \<Rightarrow> error \<Rightarrow> error" where
  "final_cause [] c = c"
| "final_cause (WithCause c' # opts) c = final_cause opts c'"
| "final_cause (opt # opts) c = final_cause opts c"

fun final_depth :: "Option list \<Rightarrow> int \<Rightarrow> int" where
  "final_depth [] d = d"
| "final_depth (WithStack ds # opts) d = final_depth opts (stack_depth ds)"
| "final_depth (opt # opts) d = final_depth opts d"

text \<open>
  The message an option list makes of the message \<open>t\<close>: \<open>t\<close>, replaced by the last
  template when that is not empty, and then formatted against the last operands when
  those are not empty. The cause it makes of the cause \<open>c\<close>: \<open>c\<close>, replaced by the error
  of the last \<open>WithCause\<close> when that is not nil.
\<close>

definition merged_msg ::
    "(string \<Rightarrow> any list \<Rightarrow> string) \<Rightarrow> string \<Rightarrow> Option list \<Rightarrow> string" where
  "merged_msg sprintf t opts =
     (let m = (if final_template sprintf opts [] = [] then t else final_template sprintf opts [])
      in if final_args opts [] = [] then m else sprintf m (final_args opts []))"

definition merged_cause :: "error \<Rightarrow> Option list \<Rightarrow> error" where
  "merged_cause c opts = (if final_cause opts ErrNil = ErrNil then c else final_cause opts ErrNil)"

text \<open>
  The first phase of the merge on its own: the value \<open>e\<close> after the merge of every
  field the options set, the operands left out.
\<close>

definition merged_fields ::
    "runtime \<Rightarrow> (string \<Rightarrow> any list \<Rightarrow> string) \<Rightarrow> Error \<Rightarrow> Option list \<Rightarrow> Error" where
  "merged_fields rt sprintf e opts =
     snd (merge_option rt sprintf e
            ((apply_options sprintf opts ErrorOption_zero)\<lparr>msgArgs := []\<rparr>))"

text \<open>
  What a wrapping constructor makes of an underlying error \<open>err\<close> with the text \<open>t\<close>:
  the result \<open>r\<close> is an error value with the message and the cause the options make of
  \<open>t\<close> and \<open>err\<close>.
\<close>

definition wraps ::
    "(string \<Rightarrow> any list \<Rightarrow> string) \<Rightarrow> panic + Error option \<Rightarrow> string \<Rightarrow> error \<Rightarrow> Option list
       \<Rightarrow> bool" where
  "wraps sprintf r t err opts =
     (case r of
        Inr (Some e) \<Rightarrow> Msg e = merged_msg sprintf t opts \<and> Cause e = merged_cause err opts
      | Inr None \<Rightarrow> False
      | Inl p \<Rightarrow> False)"

subsection \<open>A fragment of \<^verbatim>\<open>fmt.Sprintf\<close>\<close>

text \<open>
  The general statements hold for every formatting function. The scenarios are evaluated
  with \<open>Sprintf\<close>, which follows \<^verbatim>\<open>fmt.Sprintf\<close> on templates whose verbs are \<^verbatim>\<open>%d\<close>,
  \<^verbatim>\<open>%s\<close>, \<^verbatim>\<open>%v\<close> and \<^verbatim>\<open>%%\<close>, with the diagnostics of \<^verbatim>\<open>fmt\<close> for an operand of the
  wrong type, a missing operand, operands left over and a template ending in \<^verbatim>\<open>%\<close>.
  Flags, widths, precisions and the other verbs of \<^verbatim>\<open>fmt\<close> are outside the fragment.
\<close>

definition decimal_digit :: "nat \<Rightarrow> char" where
  "decimal_digit n = ''0123456789'' ! (n mod 10)"

function show_nat :: "nat \<Rightarrow> string" where
  "show_nat n = (if n < 10 then [decimal_digit n] else show_nat (n div 10) @ [decimal_digit n])"
  by pat_completeness auto
termination
  by (relation "measure id") auto

definition show_int :: "int \<Rightarrow> string" where
  "show_int i = (if i < 0 then CHR ''-'' # show_nat (nat (- i)) else show_nat (nat i))"

fun any_type :: "any \<Rightarrow> string" where
  "any_type (AInt i) = ''int''"
| "any_type (AString s) = ''string''"

fun any_value :: "any \<Rightarrow> string" where
  "any_value (AInt i) = show_int i"
| "any_value (AString s) = s"

definition bad_verb :: "char \<Rightarrow> any \<Rightarrow> string" where
  "bad_verb c a = ''%!'' @ [c] @ ''('' @ any_type a @ ''='' @ any_value a @ '')''"

fun format_verb :: "char \<Rightarrow> any \<Rightarrow> string" where
  "format_verb c (AInt i) =
     (if c = CHR ''d'' \<or> c = CHR ''v'' then show_int i else bad_verb c (AInt i))"
| "format_verb c (AString s) =
     (if c = CHR ''s'' \<or> c = CHR ''v'' then s else bad_verb c (AString s))"

fun extra_list :: "any list \<Rightarrow> string" where
  "extra_list [] = []"
| "extra_list [a] = any_type a @ ''='' @ any_value a"
| "extra_list (a # b # as) = any_type a @ ''='' @ any_value a @ '', '' @ extra_list (b # as)"

definition extra_operands :: "any list \<Rightarrow> string" where
  "extra_operands as = (if as = [] then [] else ''%!(EXTRA '' @ extra_list as @ '')'')"

fun Sprintf :: "string \<Rightarrow> any list \<Rightarrow> string" where
  "Sprintf [] as = extra_operands as"
| "Sprintf [c] as =
     (if c = CHR ''%'' then ''%!(NOVERB)'' @ extra_operands as else c # extra_operands as)"
| "Sprintf (c # v # rest) as =
     (if c = CHR ''%'' then
        (if v = CHR ''%'' then CHR ''%'' # Sprintf rest as
         else case as of
                [] \<Rightarrow> ''%!'' @ [v] @ ''(MISSING)'' @ Sprintf rest []
              | a # as' \<Rightarrow> format_verb v a @ Sprintf rest as')
      else c # Sprintf (v # rest) as)"

subsection \<open>Three call stacks\<close>

text \<open>
  \<open>rt_app\<close>: an application calls a constructor of the package, which calls
  \<^verbatim>\<open>ApplyOption\<close>, which calls \<^verbatim>\<open>callers\<close>. \<open>rt_lib\<close>: twenty frames, every one in a
  file of the package that is not a test file. Each process has memory for a trace of
  \<open>2 ^ 20\<close> entries.
\<close>

definition lib_file :: string where
  "lib_file = ''/src/github.com/go-estar/base-error/baseError.go''"

definition rt_app :: runtime where
  "rt_app =
     \<lparr>sourceDir = ''/src/github.com/'', selfPC = 9,
      frames =
        [\<lparr>srcFile = lib_file, pc = 10\<rparr>, \<lparr>srcFile = lib_file, pc = 11\<rparr>,
         \<lparr>srcFile = lib_file, pc = 12\<rparr>, \<lparr>srcFile = ''/app/main.go'', pc = 13\<rparr>,
         \<lparr>srcFile = ''/go/src/runtime/proc.go'', pc = 14\<rparr>,
         \<lparr>srcFile = ''/go/src/runtime/asm_amd64.s'', pc = 15\<rparr>],
      makeLimit = 1048576\<rparr>"

definition rt_lib :: runtime where
  "rt_lib =
     \<lparr>sourceDir = ''/src/github.com/'', selfPC = 99,
      frames = map (\<lambda>k. \<lparr>srcFile = lib_file, pc = 100 + k\<rparr>) [0..<20],
      makeLimit = 1048576\<rparr>"

text \<open>
  \<open>rt_test\<close>: a test of the package calls a constructor; the test file lies under
  \<open>sourceDir\<close>.
\<close>

definition rt_test :: runtime where
  "rt_test =
     \<lparr>sourceDir = ''/src/github.com/'', selfPC = 19,
      frames =
        [\<lparr>srcFile = lib_file, pc = 20\<rparr>, \<lparr>srcFile = lib_file, pc = 21\<rparr>,
         \<lparr>srcFile = lib_file, pc = 22\<rparr>,
         \<lparr>srcFile = ''/src/github.com/go-estar/base-error/baseError_test.go'', pc = 23\<rparr>,
         \<lparr>srcFile = ''/go/src/testing/testing.go'', pc = 24\<rparr>],
      makeLimit = 1048576\<rparr>"

subsection \<open>An error value and a foreign error\<close>

definition e0 :: Error where
  "e0 = Error ''E1'' ''orig %s'' True [''svc''] (ErrForeign ''*errors.errorString'' ''disk full'') (Some [1, 2])"

definition disk_full :: error where
  "disk_full = ErrForeign ''*errors.errorString'' ''disk full''"

subsection \<open>The earlier revision\<close>

text \<open>
  An earlier revision of the file is kept beside it. Two of its functions differ from
  \<^verbatim>\<open>baseError.go\<close> in what the properties below are about: its \<^verbatim>\<open>Error()\<close> method
  always writes the brackets, and its \<^verbatim>\<open>WithStackDepth\<close> (an option and a method, merged
  into the variadic \<^verbatim>\<open>WithStack\<close> since) replaces a depth that is not positive by 1.
\<close>

definition Error_Error_earlier :: "Error \<Rightarrow> string" where
  "Error_Error_earlier b = ''['' @ Code b @ ''] '' @ Msg b"

definition WithStackDepth_earlier :: "int \<Rightarrow> int" where
  "WithStackDepth_earlier stackDepth = (if stackDepth \<le> 0 then 1 else stackDepth)"

section \<open>Properties\<close>

subsection \<open>Field access after an update\<close>

lemma sel_set_Code:
  "Code (set_Code v b) = v" "Msg (set_Code v b) = Msg b" "System (set_Code v b) = System b"
  "Chain (set_Code v b) = Chain b" "Cause (set_Code v b) = Cause b"
  "Stack (set_Code v b) = Stack b"
  by (simp_all add: set_Code_def)

lemma sel_set_Msg:
  "Code (set_Msg v b) = Code b" "Msg (set_Msg v b) = v" "System (set_Msg v b) = System b"
  "Chain (set_Msg v b) = Chain b" "Cause (set_Msg v b) = Cause b"
  "Stack (set_Msg v b) = Stack b"
  by (simp_all add: set_Msg_def)

lemma sel_set_System:
  "Code (set_System v b) = Code b" "Msg (set_System v b) = Msg b"
  "System (set_System v b) = v" "Chain (set_System v b) = Chain b"
  "Cause (set_System v b) = Cause b" "Stack (set_System v b) = Stack b"
  by (simp_all add: set_System_def)

lemma sel_set_Chain:
  "Code (set_Chain v b) = Code b" "Msg (set_Chain v b) = Msg b"
  "System (set_Chain v b) = System b" "Chain (set_Chain v b) = v"
  "Cause (set_Chain v b) = Cause b" "Stack (set_Chain v b) = Stack b"
  by (simp_all add: set_Chain_def)

lemma sel_set_Cause:
  "Code (set_Cause v b) = Code b" "Msg (set_Cause v b) = Msg b"
  "System (set_Cause v b) = System b" "Chain (set_Cause v b) = Chain b"
  "Cause (set_Cause v b) = v" "Stack (set_Cause v b) = Stack b"
  by (simp_all add: set_Cause_def)

lemma sel_set_Stack:
  "Code (set_Stack v b) = Code b" "Msg (set_Stack v b) = Msg b"
  "System (set_Stack v b) = System b" "Chain (set_Stack v b) = Chain b"
  "Cause (set_Stack v b) = Cause b" "Stack (set_Stack v b) = v"
  by (simp_all add: set_Stack_def)

lemmas sel_set = sel_set_Code sel_set_Msg sel_set_System sel_set_Chain sel_set_Cause sel_set_Stack

subsection \<open>The accumulator after the options\<close>

lemma stack_depth_pos: "0 < stack_depth ds"
  by (simp add: stack_depth_def)

lemma apply_options_code:
  "\<not> list_ex sets_code opts \<Longrightarrow> code (apply_options sp opts acc) = code acc"
proof (induction opts arbitrary: acc)
  case Nil
  then show ?case by simp
next
  case (Cons a opts)
  then show ?case by (cases a) simp_all
qed

lemma apply_options_system:
  "\<not> list_ex sets_system opts \<Longrightarrow> system (apply_options sp opts acc) = system acc"
proof (induction opts arbitrary: acc)
  case Nil
  then show ?case by simp
next
  case (Cons a opts)
  then show ?case by (cases a) simp_all
qed

lemma apply_options_chain:
  "\<not> list_ex sets_chain opts \<Longrightarrow> chain (apply_options sp opts acc) = chain acc"
proof (induction opts arbitrary: acc)
  case Nil
  then show ?case by simp
next
  case (Cons a opts)
  then show ?case by (cases a) simp_all
qed

lemma apply_options_msg: "msg (apply_options sp opts acc) = final_template sp opts (msg acc)"
proof (induction opts arbitrary: acc)
  case Nil
  then show ?case by simp
next
  case (Cons a opts)
  then show ?case by (cases a) simp_all
qed

lemma apply_options_msgArgs: "msgArgs (apply_options sp opts acc) = final_args opts (msgArgs acc)"
proof (induction opts arbitrary: acc)
  case Nil
  then show ?case by simp
next
  case (Cons a opts)
  then show ?case by (cases a) simp_all
qed

lemma apply_options_cause: "cause (apply_options sp opts acc) = final_cause opts (cause acc)"
proof (induction opts arbitrary: acc)
  case Nil
  then show ?case by simp
next
  case (Cons a opts)
  then show ?case by (cases a) simp_all
qed

lemma apply_options_depth: "depth (apply_options sp opts acc) = final_depth opts (depth acc)"
proof (induction opts arbitrary: acc)
  case Nil
  then show ?case by simp
next
  case (Cons a opts)
  then show ?case by (cases a) simp_all
qed

lemma final_template_none: "\<not> list_ex sets_template opts \<Longrightarrow> final_template sp opts t = t"
proof (induction opts arbitrary: t)
  case Nil
  then show ?case by simp
next
  case (Cons a opts)
  then show ?case by (cases a) simp_all
qed

lemma final_args_none: "\<not> list_ex sets_args opts \<Longrightarrow> final_args opts as = as"
proof (induction opts arbitrary: as)
  case Nil
  then show ?case by simp
next
  case (Cons a opts)
  then show ?case by (cases a) simp_all
qed

lemma final_cause_none: "\<not> list_ex sets_cause opts \<Longrightarrow> final_cause opts c = c"
proof (induction opts arbitrary: c)
  case Nil
  then show ?case by simp
next
  case (Cons a opts)
  then show ?case by (cases a) simp_all
qed

lemma final_depth_none: "\<not> list_ex sets_stack opts \<Longrightarrow> final_depth opts d = d"
proof (induction opts arbitrary: d)
  case Nil
  then show ?case by simp
next
  case (Cons a opts)
  then show ?case by (cases a) simp_all
qed

lemma final_depth_pos: "list_ex sets_stack opts \<or> 0 < d \<Longrightarrow> 0 < final_depth opts d"
proof (induction opts arbitrary: d)
  case Nil
  then show ?case by simp
next
  case (Cons a opts)
  then show ?case by (cases a) (simp_all add: stack_depth_pos)
qed

lemma final_depth_zero: "final_depth opts 0 = 0 \<longleftrightarrow> \<not> list_ex sets_stack opts"
  using final_depth_pos [of opts 0] final_depth_none [of opts 0] by auto

lemma not_sets_msg:
  "\<not> list_ex sets_msg opts \<Longrightarrow> \<not> list_ex sets_template opts \<and> \<not> list_ex sets_args opts"
  by (auto simp: list_ex_iff sets_msg_def)

lemma zero_fields:
  "code ErrorOption_zero = []" "msg ErrorOption_zero = []" "\<not> system ErrorOption_zero"
  "chain ErrorOption_zero = []" "cause ErrorOption_zero = ErrNil" "depth ErrorOption_zero = 0"
  "msgArgs ErrorOption_zero = []"
  by (simp_all add: ErrorOption_zero_def)

subsection \<open>The capture\<close>

lemma make_fails_zero: "make_fails rt 0 = None"
  by (simp add: make_fails_def)

lemma make_fails_range: "make_fails rt d = None \<Longrightarrow> 0 \<le> d"
  by (simp add: make_fails_def split: if_splits)

lemma callers_returns:
  "make_fails rt d = None \<Longrightarrow>
   callers rt skip d = Inr (runtime_Callers rt (callers_scan rt skip skip) (nat d))"
  by (simp add: callers_def Let_def)

lemma callers_fails: "make_fails rt d = Some p \<Longrightarrow> callers rt skip d = Inl p"
  by (simp add: callers_def Let_def)

lemma callers_length: "callers rt skip d = Inr st \<Longrightarrow> length st \<le> nat d"
  by (auto simp add: callers_def Let_def runtime_Callers_def split: option.splits)

subsection \<open>The merge, field by field\<close>

lemma merge_option_fields:
  "fst (merge_option rt sp e acc) = make_fails rt (depth acc)"
  "Code (snd (merge_option rt sp e acc)) = (if code acc = [] then Code e else code acc)"
  "Msg (snd (merge_option rt sp e acc)) =
     (if make_fails rt (depth acc) = None \<and> msgArgs acc \<noteq> []
      then sp (if msg acc = [] then Msg e else msg acc) (msgArgs acc)
      else (if msg acc = [] then Msg e else msg acc))"
  "System (snd (merge_option rt sp e acc)) = (System e \<or> system acc)"
  "Chain (snd (merge_option rt sp e acc)) = Chain e @ chain acc"
  "Cause (snd (merge_option rt sp e acc)) = (if cause acc = ErrNil then Cause e else cause acc)"
  "Stack (snd (merge_option rt sp e acc)) =
     (if depth acc \<noteq> 0 \<and> make_fails rt (depth acc) = None
      then Some (runtime_Callers rt (callers_scan rt 3 3) (nat (depth acc)))
      else Stack e)"
proof -
  consider (none) "depth acc = 0" | (ok) "depth acc \<noteq> 0" "make_fails rt (depth acc) = None"
    | (fails) p where "depth acc \<noteq> 0" "make_fails rt (depth acc) = Some p"
    by (cases "make_fails rt (depth acc)") auto
  then have
    "fst (merge_option rt sp e acc) = make_fails rt (depth acc) \<and>
     Code (snd (merge_option rt sp e acc)) = (if code acc = [] then Code e else code acc) \<and>
     Msg (snd (merge_option rt sp e acc)) =
       (if make_fails rt (depth acc) = None \<and> msgArgs acc \<noteq> []
        then sp (if msg acc = [] then Msg e else msg acc) (msgArgs acc)
        else (if msg acc = [] then Msg e else msg acc)) \<and>
     System (snd (merge_option rt sp e acc)) = (System e \<or> system acc) \<and>
     Chain (snd (merge_option rt sp e acc)) = Chain e @ chain acc \<and>
     Cause (snd (merge_option rt sp e acc)) = (if cause acc = ErrNil then Cause e else cause acc) \<and>
     Stack (snd (merge_option rt sp e acc)) =
       (if depth acc \<noteq> 0 \<and> make_fails rt (depth acc) = None
        then Some (runtime_Callers rt (callers_scan rt 3 3) (nat (depth acc)))
        else Stack e)"
  proof cases
    case none
    then show ?thesis by (simp add: merge_option_def Let_def make_fails_zero sel_set)
  next
    case ok
    then show ?thesis by (simp add: merge_option_def Let_def callers_returns sel_set)
  next
    case fails
    then show ?thesis by (simp add: merge_option_def Let_def callers_fails sel_set)
  qed
  then show
    "fst (merge_option rt sp e acc) = make_fails rt (depth acc)"
    "Code (snd (merge_option rt sp e acc)) = (if code acc = [] then Code e else code acc)"
    "Msg (snd (merge_option rt sp e acc)) =
       (if make_fails rt (depth acc) = None \<and> msgArgs acc \<noteq> []
        then sp (if msg acc = [] then Msg e else msg acc) (msgArgs acc)
        else (if msg acc = [] then Msg e else msg acc))"
    "System (snd (merge_option rt sp e acc)) = (System e \<or> system acc)"
    "Chain (snd (merge_option rt sp e acc)) = Chain e @ chain acc"
    "Cause (snd (merge_option rt sp e acc)) = (if cause acc = ErrNil then Cause e else cause acc)"
    "Stack (snd (merge_option rt sp e acc)) =
       (if depth acc \<noteq> 0 \<and> make_fails rt (depth acc) = None
        then Some (runtime_Callers rt (callers_scan rt 3 3) (nat (depth acc)))
        else Stack e)"
    by blast+
qed

text \<open>
  The value \<open>err\<close> points to when \<open>ApplyOption\<close> ends, field by field, and what
  \<open>ApplyOption\<close> returns.
\<close>

lemma ApplyOption_pointee_fields:
  "Code (ApplyOption_pointee rt sp e opts) =
     (if code (apply_options sp opts ErrorOption_zero) = [] then Code e
      else code (apply_options sp opts ErrorOption_zero))"
  "Msg (ApplyOption_pointee rt sp e opts) =
     (if make_fails rt (final_depth opts 0) = None then merged_msg sp (Msg e) opts
      else (if final_template sp opts [] = [] then Msg e else final_template sp opts []))"
  "System (ApplyOption_pointee rt sp e opts) =
     (System e \<or> system (apply_options sp opts ErrorOption_zero))"
  "Chain (ApplyOption_pointee rt sp e opts) =
     Chain e @ chain (apply_options sp opts ErrorOption_zero)"
  "Cause (ApplyOption_pointee rt sp e opts) = merged_cause (Cause e) opts"
  "Stack (ApplyOption_pointee rt sp e opts) =
     (if list_ex sets_stack opts \<and> make_fails rt (final_depth opts 0) = None
      then Some (runtime_Callers rt (callers_scan rt 3 3) (nat (final_depth opts 0)))
      else Stack e)"
proof -
  let ?acc = "apply_options sp opts ErrorOption_zero"
  have acc: "msg ?acc = final_template sp opts []" "msgArgs ?acc = final_args opts []"
    "cause ?acc = final_cause opts ErrNil" "depth ?acc = final_depth opts 0"
    by (simp_all add: apply_options_msg apply_options_msgArgs apply_options_cause
        apply_options_depth zero_fields)
  have p: "ApplyOption_pointee rt sp e opts = snd (merge_option rt sp e ?acc)"
  proof (cases "opts = []")
    case True
    then show ?thesis
      by (simp add: ApplyOption_pointee_def merge_option_def zero_fields)
  next
    case False
    then show ?thesis by (simp add: ApplyOption_pointee_def)
  qed
  show "Code (ApplyOption_pointee rt sp e opts) = (if code ?acc = [] then Code e else code ?acc)"
    unfolding p by (rule merge_option_fields)
  show "Msg (ApplyOption_pointee rt sp e opts) =
     (if make_fails rt (final_depth opts 0) = None then merged_msg sp (Msg e) opts
      else (if final_template sp opts [] = [] then Msg e else final_template sp opts []))"
    unfolding p merge_option_fields acc by (simp add: merged_msg_def Let_def)
  show "System (ApplyOption_pointee rt sp e opts) = (System e \<or> system ?acc)"
    unfolding p by (rule merge_option_fields)
  show "Chain (ApplyOption_pointee rt sp e opts) = Chain e @ chain ?acc"
    unfolding p by (rule merge_option_fields)
  show "Cause (ApplyOption_pointee rt sp e opts) = merged_cause (Cause e) opts"
    unfolding p merge_option_fields acc by (simp add: merged_cause_def)
  show "Stack (ApplyOption_pointee rt sp e opts) =
     (if list_ex sets_stack opts \<and> make_fails rt (final_depth opts 0) = None
      then Some (runtime_Callers rt (callers_scan rt 3 3) (nat (final_depth opts 0)))
      else Stack e)"
    unfolding p merge_option_fields acc using final_depth_zero [of opts] by simp
qed

lemma ApplyOption_result:
  "ApplyOption rt sp (Some e) opts =
     (case make_fails rt (final_depth opts 0) of
        None \<Rightarrow> Inr (Some (ApplyOption_pointee rt sp e opts))
      | Some p \<Rightarrow> Inl p)"
proof (cases "opts = []")
  case True
  then show ?thesis
    by (simp add: ApplyOption_def ApplyOption_pointee_def make_fails_zero)
next
  case False
  let ?acc = "apply_options sp opts ErrorOption_zero"
  have d: "depth ?acc = final_depth opts 0"
    by (simp add: apply_options_depth zero_fields)
  have f: "fst (merge_option rt sp e ?acc) = make_fails rt (final_depth opts 0)"
    by (simp add: merge_option_fields d)
  obtain r e' where m: "merge_option rt sp e ?acc = (r, e')"
    by (cases "merge_option rt sp e ?acc")
  with f have r: "make_fails rt (final_depth opts 0) = r" by simp
  show ?thesis
    unfolding r using False m
    by (cases r) (simp_all add: ApplyOption_def ApplyOption_pointee_def Let_def)
qed

lemma ApplyOption_untargeted:
  "\<not> list_ex sets_code opts \<longrightarrow> Code (ApplyOption_pointee rt sp e opts) = Code e"
  "\<not> list_ex sets_msg opts \<longrightarrow> Msg (ApplyOption_pointee rt sp e opts) = Msg e"
  "\<not> list_ex sets_system opts \<longrightarrow> System (ApplyOption_pointee rt sp e opts) = System e"
  "\<not> list_ex sets_chain opts \<longrightarrow> Chain (ApplyOption_pointee rt sp e opts) = Chain e"
  "\<not> list_ex sets_cause opts \<longrightarrow> Cause (ApplyOption_pointee rt sp e opts) = Cause e"
  "\<not> list_ex sets_stack opts \<longrightarrow> Stack (ApplyOption_pointee rt sp e opts) = Stack e"
  "Code e \<noteq> [] \<longrightarrow> Code (ApplyOption_pointee rt sp e opts) \<noteq> []"
  "System e \<longrightarrow> System (ApplyOption_pointee rt sp e opts)"
  "prefix (Chain e) (Chain (ApplyOption_pointee rt sp e opts))"
  "Cause e \<noteq> ErrNil \<longrightarrow> Cause (ApplyOption_pointee rt sp e opts) \<noteq> ErrNil"
  "Stack e \<noteq> None \<longrightarrow> Stack (ApplyOption_pointee rt sp e opts) \<noteq> None"
proof -
  show "\<not> list_ex sets_code opts \<longrightarrow> Code (ApplyOption_pointee rt sp e opts) = Code e"
    by (simp add: ApplyOption_pointee_fields apply_options_code zero_fields)
  show "\<not> list_ex sets_msg opts \<longrightarrow> Msg (ApplyOption_pointee rt sp e opts) = Msg e"
    using not_sets_msg [of opts]
    by (auto simp add: ApplyOption_pointee_fields merged_msg_def final_template_none
        final_args_none)
  show "\<not> list_ex sets_system opts \<longrightarrow> System (ApplyOption_pointee rt sp e opts) = System e"
    by (simp add: ApplyOption_pointee_fields apply_options_system zero_fields)
  show "\<not> list_ex sets_chain opts \<longrightarrow> Chain (ApplyOption_pointee rt sp e opts) = Chain e"
    by (simp add: ApplyOption_pointee_fields apply_options_chain zero_fields)
  show "\<not> list_ex sets_cause opts \<longrightarrow> Cause (ApplyOption_pointee rt sp e opts) = Cause e"
    by (simp add: ApplyOption_pointee_fields merged_cause_def final_cause_none)
  show "\<not> list_ex sets_stack opts \<longrightarrow> Stack (ApplyOption_pointee rt sp e opts) = Stack e"
    by (simp add: ApplyOption_pointee_fields)
  show "Code e \<noteq> [] \<longrightarrow> Code (ApplyOption_pointee rt sp e opts) \<noteq> []"
    by (simp add: ApplyOption_pointee_fields)
  show "System e \<longrightarrow> System (ApplyOption_pointee rt sp e opts)"
    by (simp add: ApplyOption_pointee_fields)
  show "prefix (Chain e) (Chain (ApplyOption_pointee rt sp e opts))"
    by (simp add: ApplyOption_pointee_fields)
  show "Cause e \<noteq> ErrNil \<longrightarrow> Cause (ApplyOption_pointee rt sp e opts) \<noteq> ErrNil"
    by (simp add: ApplyOption_pointee_fields merged_cause_def)
  show "Stack e \<noteq> None \<longrightarrow> Stack (ApplyOption_pointee rt sp e opts) \<noteq> None"
    by (simp add: ApplyOption_pointee_fields)
qed

lemma merged_fields_Msg:
  "Msg (merged_fields rt sp e opts) =
     (if final_template sp opts [] = [] then Msg e else final_template sp opts [])"
  by (simp add: merged_fields_def merge_option_fields apply_options_msg zero_fields)

lemma merge_option_two_phases:
  assumes "msgArgs acc \<noteq> []" and "make_fails rt (depth acc) = None"
  shows "merge_option rt sp e acc =
     (None, set_Msg (sp (Msg (snd (merge_option rt sp e (acc\<lparr>msgArgs := []\<rparr>)))) (msgArgs acc))
              (snd (merge_option rt sp e (acc\<lparr>msgArgs := []\<rparr>))))"
proof (cases "depth acc = 0")
  case True
  then show ?thesis using assms by (simp add: merge_option_def Let_def)
next
  case False
  then show ?thesis using assms by (simp add: merge_option_def Let_def callers_returns)
qed

lemma ApplyOption_two_phases:
  assumes "final_args opts [] \<noteq> []" and "make_fails rt (final_depth opts 0) = None"
  shows "ApplyOption rt sp (Some e) opts =
     Inr (Some (set_Msg (sp (Msg (merged_fields rt sp e opts)) (final_args opts []))
                  (merged_fields rt sp e opts)))"
proof -
  let ?acc = "apply_options sp opts ErrorOption_zero"
  have a: "msgArgs ?acc = final_args opts []" "depth ?acc = final_depth opts 0"
    by (simp_all add: apply_options_msgArgs apply_options_depth zero_fields)
  have ne: "opts \<noteq> []" using assms(1) by auto
  have "merge_option rt sp e ?acc =
     (None, set_Msg (sp (Msg (merged_fields rt sp e opts)) (final_args opts []))
              (merged_fields rt sp e opts))"
    using merge_option_two_phases [of ?acc rt sp e] assms
    by (simp add: a merged_fields_def)
  then show ?thesis using ne by (simp add: ApplyOption_def Let_def)
qed

lemma rt_app_make_small: "make_fails rt_app 0 = None" "make_fails rt_app 2 = None"
  "make_fails rt_app 3 = None"
  by (simp_all add: make_fails_def rt_app_def)

lemma Error_WithStack_result:
  "Error_WithStack rt e ds =
     (case make_fails rt (stack_depth ds) of
        None \<Rightarrow> Inr (set_Stack (Some (runtime_Callers rt (callers_scan rt 3 3)
                                    (nat (stack_depth ds)))) e)
      | Some q \<Rightarrow> Inl q)"
  by (cases "make_fails rt (stack_depth ds)")
    (simp_all add: Error_WithStack_def Let_def callers_returns callers_fails)

lemma rt_app_scan: "callers_scan rt_app 3 3 = 4"
  by code_simp

lemma wraps_base:
  "make_fails rt (final_depth opts 0) = None \<Longrightarrow>
   wraps sp (ApplyOption rt sp (Some (Error c t s [] err None)) opts) t err opts"
  by (simp add: ApplyOption_result wraps_def ApplyOption_pointee_fields)

lemma fails_base:
  "make_fails rt (final_depth opts 0) = Some q \<Longrightarrow>
   ApplyOption rt sp (Some (Error c t s [] err None)) opts = Inl q"
  by (simp add: ApplyOption_result)

lemma callers_scan_none:
  "(\<And>i. j \<le> i \<Longrightarrow> i < 15 \<Longrightarrow> \<not> caller_frame rt i) \<Longrightarrow> callers_scan rt s j = s"
proof (induction rt s j rule: callers_scan.induct)
  case (1 rt s i)
  show ?case
  proof (cases "i < 15")
    case True
    then have nf: "\<not> caller_frame rt i" using "1.prems" [of i] by simp
    have "callers_scan rt s (i + 1) = s"
      using True nf "1.prems" by (intro "1.IH") simp_all
    then show ?thesis using True nf by (subst callers_scan.simps) simp
  next
    case False
    then show ?thesis by (subst callers_scan.simps) simp
  qed
qed

lemma callers_scan_first:
  "j \<le> k \<Longrightarrow> k < 15 \<Longrightarrow> caller_frame rt k \<Longrightarrow>
   (\<And>i. j \<le> i \<Longrightarrow> i < k \<Longrightarrow> \<not> caller_frame rt i) \<Longrightarrow> callers_scan rt s j = k + 1"
proof (induction rt s j rule: callers_scan.induct)
  case (1 rt s i)
  have lt: "i < 15" using "1.prems" by simp
  show ?case
  proof (cases "i = k")
    case True
    then show ?thesis using lt "1.prems" by (subst callers_scan.simps) simp
  next
    case False
    then have ik: "i < k" using "1.prems" by simp
    then have nf: "\<not> caller_frame rt i" using "1.prems"(4) [of i] by simp
    have "callers_scan rt s (i + 1) = k + 1"
      using lt nf ik "1.prems" by (intro "1.IH") simp_all
    then show ?thesis using lt nf by (subst callers_scan.simps) simp
  qed
qed

lemma caller_frame_in_range: "caller_frame rt k \<Longrightarrow> k < length (frames rt)"
  by (simp add: caller_frame_def runtime_Caller_def split: if_splits)

lemma callers_scan_bound: "callers_scan rt s j = s \<or> callers_scan rt s j \<le> length (frames rt)"
proof (induction rt s j rule: callers_scan.induct)
  case (1 rt s i)
  show ?case
  proof (cases "i < 15 \<and> \<not> caller_frame rt i")
    case True
    then have "callers_scan rt s i = callers_scan rt s (i + 1)"
      by (subst callers_scan.simps) simp
    then show ?thesis using True "1.IH" by simp
  next
    case False
    show ?thesis
    proof (cases "i < 15")
      case True
      with False have cf: "caller_frame rt i" by simp
      have "callers_scan rt s i = i + 1"
        using True cf by (subst callers_scan.simps) simp
      then show ?thesis using caller_frame_in_range [OF cf] by simp
    next
      case False
      then have "callers_scan rt s i = s" by (subst callers_scan.simps) simp
      then show ?thesis by simp
    qed
  qed
qed

lemma callers_boundary_returning:
  assumes "make_fails rt d = None"
  shows "((\<forall>i. skip \<le> i \<and> i < 15 \<longrightarrow> \<not> caller_frame rt i) \<longrightarrow>
            callers_scan rt skip skip = skip \<and>
            callers rt skip d = Inr (take (nat d) (drop skip (selfPC rt # map pc (frames rt))))) \<and>
         (\<forall>k. skip \<le> k \<and> k < 15 \<and> caller_frame rt k \<and>
               (\<forall>i. skip \<le> i \<and> i < k \<longrightarrow> \<not> caller_frame rt i) \<longrightarrow>
            callers_scan rt skip skip = k + 1 \<and>
            callers rt skip d = Inr (take (nat d) (drop k (map pc (frames rt)))) \<and>
            (0 < d \<longrightarrow> (\<exists>rest. callers rt skip d = Inr (pc (frames rt ! k) # rest))))"
proof (intro conjI impI allI)
  assume n: "\<forall>i. skip \<le> i \<and> i < 15 \<longrightarrow> \<not> caller_frame rt i"
  then show s: "callers_scan rt skip skip = skip"
    by (intro callers_scan_none) simp
  show "callers rt skip d = Inr (take (nat d) (drop skip (selfPC rt # map pc (frames rt))))"
    using assms s by (simp add: callers_returns runtime_Callers_def)
next
  fix k
  assume k: "skip \<le> k \<and> k < 15 \<and> caller_frame rt k \<and>
               (\<forall>i. skip \<le> i \<and> i < k \<longrightarrow> \<not> caller_frame rt i)"
  then show s: "callers_scan rt skip skip = k + 1"
    by (intro callers_scan_first) simp_all
  show c: "callers rt skip d = Inr (take (nat d) (drop k (map pc (frames rt))))"
    using assms s by (simp add: callers_returns runtime_Callers_def)
  assume "0 < d"
  moreover have "k < length (frames rt)" using k by (simp add: caller_frame_in_range)
  ultimately have "take (nat d) (drop k (map pc (frames rt)))
      = pc (frames rt ! k) # take (nat d - 1) (drop (Suc k) (map pc (frames rt)))"
    by (cases "nat d") (simp_all add: Cons_nth_drop_Suc [symmetric])
  with c show "\<exists>rest. callers rt skip d = Inr (pc (frames rt ! k) # rest)" by simp
qed

lemma lib_file_in_package:
  "prefix ''/src/github.com/'' lib_file \<and> \<not> suffix ''_test.go'' lib_file"
  by code_simp

lemma rt_lib_no_caller_frame: "\<not> caller_frame rt_lib i"
  by (simp add: caller_frame_def runtime_Caller_def rt_lib_def lib_file_in_package)

lemma rt_lib_scan: "callers_scan rt_lib 3 3 = 3"
  by (rule callers_scan_none) (rule rt_lib_no_caller_frame)

lemma rt_lib_pcs: "runtime_Callers rt_lib 3 3 = [102, 103, 104]"
  by code_simp

lemma rt_app_first_caller_frame: "caller_frame rt_app 3"
  by (simp add: caller_frame_def runtime_Caller_def rt_app_def)

lemma rt_test_first_caller_frame: "caller_frame rt_test 3"
  by code_simp

lemma rt_make_three: "make_fails rt_lib 3 = None" "make_fails rt_test 3 = None"
  by (simp_all add: make_fails_def rt_lib_def rt_test_def)

lemma trace_nonempty:
  assumes "3 \<le> length (frames rt)" and "0 < n"
  shows "1 \<le> length (runtime_Callers rt (callers_scan rt 3 3) n)"
proof -
  have "callers_scan rt 3 3 \<le> length (frames rt)"
    using callers_scan_bound [of rt 3 3] assms(1) by auto
  then show ?thesis using assms(2) by (simp add: runtime_Callers_def)
qed

subsection \<open>Short form\<close>

text \<open>
  C7. The short form of an error value is \<open>[code] message\<close> when the code is not empty
  and the message alone when it is; \<^verbatim>\<open>NewCode("E1", "boom")\<close> renders \<open>[E1] boom\<close> and
  \<^verbatim>\<open>New("plain")\<close> renders \<open>plain\<close>.
\<close>

theorem Error_Error_short_form:
  "Error_Error b = (if Code b = [] then Msg b else ''['' @ Code b @ ''] '' @ Msg b) \<and>
   map_sum id (map_option Error_Error) (NewCode rt sprintf ''E1'' ''boom'' []) =
     Inr (Some ''[E1] boom'') \<and>
   map_sum id (map_option Error_Error) (New rt sprintf ''plain'' []) = Inr (Some ''plain'')"
  by (simp add: Error_Error_def NewCode_def New_def ApplyOption_def)

text \<open>
  In the earlier revision the brackets are written for an empty code as well.
\<close>

lemma Error_Error_earlier_empty_code:
  "Error_Error_earlier (Error [] ''plain'' False [] ErrNil None) = ''[] plain''"
  by (simp add: Error_Error_earlier_def)

subsection \<open>The merge of the options\<close>

text \<open>
  C1, as amended. When the operands of the last \<open>WithMsgArgs\<close> of the option list are
  not empty and the capture the list asks for, if any, can allocate its depth,
  \<open>ApplyOption\<close> returns the value of the first phase, in which every other field has
  been merged, with its message formatted against those operands. The template that is
  formatted is the one of the last \<open>WithMsg\<close> or \<open>WithMsgFormat\<close> of the list when
  that is not empty, and the message the value had otherwise. The position of
  \<open>WithMsgArgs\<close> in the list plays no part. The same message results for a value built
  by \<open>New\<close> and for a clone.
\<close>

theorem ApplyOption_formats_final_template:
  assumes "final_args opts [] \<noteq> []" and "make_fails rt (final_depth opts 0) = None"
  shows "ApplyOption rt sprintf (Some e) opts =
           Inr (Some (set_Msg (sprintf (Msg (merged_fields rt sprintf e opts)) (final_args opts []))
                        (merged_fields rt sprintf e opts))) \<and>
         Msg (merged_fields rt sprintf e opts) =
           (if final_template sprintf opts [] = [] then Msg e
            else final_template sprintf opts []) \<and>
         (\<exists>e'. ApplyOption rt sprintf (Some e) opts = Inr (Some e') \<and>
            Msg e' = sprintf (if final_template sprintf opts [] = [] then Msg e
                              else final_template sprintf opts []) (final_args opts [])) \<and>
         (\<exists>e'. New rt sprintf m opts = Inr (Some e') \<and>
            Msg e' = sprintf (if final_template sprintf opts [] = [] then m
                              else final_template sprintf opts []) (final_args opts [])) \<and>
         (\<exists>e'. Clone rt sprintf (Some e) opts = Inr (Some e') \<and>
            Msg e' = sprintf (if final_template sprintf opts [] = [] then Msg e
                              else final_template sprintf opts []) (final_args opts []))"
proof -
  have g: "\<exists>e'. ApplyOption rt sprintf (Some b) opts = Inr (Some e') \<and>
            Msg e' = sprintf (if final_template sprintf opts [] = [] then t
                              else final_template sprintf opts []) (final_args opts [])"
    if "Msg b = t" for b t
    using that assms
    by (simp add: ApplyOption_result ApplyOption_pointee_fields merged_msg_def)
  have 0: "ApplyOption rt sprintf (Some e) opts =
           Inr (Some (set_Msg (sprintf (Msg (merged_fields rt sprintf e opts)) (final_args opts []))
                        (merged_fields rt sprintf e opts)))"
    using assms by (rule ApplyOption_two_phases)
  have 1: "\<exists>e'. ApplyOption rt sprintf (Some e) opts = Inr (Some e') \<and>
            Msg e' = sprintf (if final_template sprintf opts [] = [] then Msg e
                              else final_template sprintf opts []) (final_args opts [])"
    by (rule g) simp
  have 2: "\<exists>e'. New rt sprintf m opts = Inr (Some e') \<and>
            Msg e' = sprintf (if final_template sprintf opts [] = [] then m
                              else final_template sprintf opts []) (final_args opts [])"
    unfolding New_def by (rule g) simp
  have 3: "\<exists>e'. Clone rt sprintf (Some e) opts = Inr (Some e') \<and>
            Msg e' = sprintf (if final_template sprintf opts [] = [] then Msg e
                              else final_template sprintf opts []) (final_args opts [])"
    unfolding Clone_def option.case by (rule g) simp
  show ?thesis using 0 merged_fields_Msg [of rt sprintf e opts] 1 2 3 by (intro conjI)
qed

text \<open>
  A template option placed after the operands, and one placed before them: the message
  is formatted from \<open>%d-%s\<close> in both, not from the message the value had.
\<close>

theorem ApplyOption_formats_final_template_witness:
  "map_sum id (map_option Error_Error)
     (NewCode rt_app Sprintf ''E7'' ''stale %s''
        [WithMsgArgs [AInt 7, AString ''x''], WithMsg ''%d-%s'']) = Inr (Some ''[E7] 7-x'') \<and>
   map_sum id (map_option Msg)
     (ApplyOption rt_app Sprintf (Some e0)
        [WithMsg ''%d-%s'', WithMsgArgs [AInt 7, AString ''x''], NilOption])
     = Inr (Some ''7-x'')"
proof -
  let ?o1 = "[WithMsgArgs [AInt 7, AString ''x''], WithMsg ''%d-%s'']"
  let ?o2 = "[WithMsg ''%d-%s'', WithMsgArgs [AInt 7, AString ''x''], NilOption]"
  let ?b = "Error ''E7'' ''stale %s'' False [] ErrNil None"
  have h1: "final_args ?o1 [] \<noteq> []" and h2: "final_args ?o2 [] \<noteq> []" by simp_all
  have d1: "make_fails rt_app (final_depth ?o1 0) = None"
    and d2: "make_fails rt_app (final_depth ?o2 0) = None"
    by (simp_all add: rt_app_make_small)
  have f1: "Sprintf (if final_template Sprintf ?o1 [] = [] then Msg ?b
                     else final_template Sprintf ?o1 []) (final_args ?o1 []) = ''7-x''"
    by code_simp
  have f2: "Sprintf (if final_template Sprintf ?o2 [] = [] then Msg e0
                     else final_template Sprintf ?o2 []) (final_args ?o2 []) = ''7-x''"
    by code_simp
  from ApplyOption_formats_final_template [OF h1 d1, of Sprintf ?b "[]"]
  obtain a where a: "ApplyOption rt_app Sprintf (Some ?b) ?o1 = Inr (Some a)"
    and am: "Msg a = ''7-x''" unfolding f1 by blast
  have ac: "Code a = ''E7''"
    using a d1 by (auto simp add: ApplyOption_result ApplyOption_pointee_fields zero_fields)
  from ApplyOption_formats_final_template [OF h2 d2, of Sprintf e0 "[]"]
  obtain b where b: "ApplyOption rt_app Sprintf (Some e0) ?o2 = Inr (Some b)"
    and bm: "Msg b = ''7-x''" unfolding f2 by blast
  show ?thesis using a am ac b bm by (simp add: NewCode_def Error_Error_def)
qed

text \<open>
  C1 as stated fails. An empty template supplied last leaves the message the value had
  as the template; an empty \<open>WithMsgArgs\<close> supplied last leaves the template
  unformatted; and a depth no capture can allocate ends the merge before it formats.
\<close>

theorem template_or_operands_not_applied:
  "map_sum id (map_option Msg)
     (New rt_app Sprintf ''stale %s'' [WithMsg ''%d-%s'', WithMsg [], WithMsgArgs [AInt 7, AString ''x'']])
     = Inr (Some ''stale %!s(int=7)%!(EXTRA string=x)'') \<and>
   map_sum id (map_option Msg)
     (New rt_app Sprintf ''boom'' [WithMsg ''%d'', WithMsgArgs [AInt 1], WithMsgArgs []])
     = Inr (Some ''%d'') \<and>
   New rt_app Sprintf ''boom %d'' [WithMsgArgs [AInt 1], WithStack [9223372036854775807]]
     = Inl MakeSliceLenOutOfRange"
proof -
  have 1: "map_sum id (map_option Msg)
     (New rt_app Sprintf ''stale %s'' [WithMsg ''%d-%s'', WithMsg [], WithMsgArgs [AInt 7, AString ''x'']])
     = Inr (Some ''stale %!s(int=7)%!(EXTRA string=x)'')"
    by code_simp
  have 2: "map_sum id (map_option Msg)
     (New rt_app Sprintf ''boom'' [WithMsg ''%d'', WithMsgArgs [AInt 1], WithMsgArgs []])
     = Inr (Some ''%d'')"
    by code_simp
  have 3: "New rt_app Sprintf ''boom %d'' [WithMsgArgs [AInt 1], WithStack [9223372036854775807]]
     = Inl MakeSliceLenOutOfRange"
    by (simp add: New_def ApplyOption_result stack_depth_def make_fails_def)
  show ?thesis using 1 2 3 by (intro conjI)
qed

text \<open>
  C4. \<open>ApplyOption\<close> with no options returns its argument, whatever the pointer and
  the call stack. With any options, in the value the pointer refers to when the call
  ends, by return or by panic, every field that no option of the list targets is as it
  was; and no option empties a code, resets the system flag, shortens the chain, removes a
  cause or removes a stack. The call returns that value unless the list asks for a
  capture whose depth cannot be allocated, which is the one way it panics on a pointer
  that is not nil.
\<close>

theorem ApplyOption_frame:
  "ApplyOption rt sprintf p [] = Inr p \<and>
   (\<not> list_ex sets_code opts \<longrightarrow> Code (ApplyOption_pointee rt sprintf e opts) = Code e) \<and>
   (\<not> list_ex sets_msg opts \<longrightarrow> Msg (ApplyOption_pointee rt sprintf e opts) = Msg e) \<and>
   (\<not> list_ex sets_system opts \<longrightarrow> System (ApplyOption_pointee rt sprintf e opts) = System e) \<and>
   (\<not> list_ex sets_chain opts \<longrightarrow> Chain (ApplyOption_pointee rt sprintf e opts) = Chain e) \<and>
   (\<not> list_ex sets_cause opts \<longrightarrow> Cause (ApplyOption_pointee rt sprintf e opts) = Cause e) \<and>
   (\<not> list_ex sets_stack opts \<longrightarrow> Stack (ApplyOption_pointee rt sprintf e opts) = Stack e) \<and>
   (Code e \<noteq> [] \<longrightarrow> Code (ApplyOption_pointee rt sprintf e opts) \<noteq> []) \<and>
   (System e \<longrightarrow> System (ApplyOption_pointee rt sprintf e opts)) \<and>
   prefix (Chain e) (Chain (ApplyOption_pointee rt sprintf e opts)) \<and>
   (Cause e \<noteq> ErrNil \<longrightarrow> Cause (ApplyOption_pointee rt sprintf e opts) \<noteq> ErrNil) \<and>
   (Stack e \<noteq> None \<longrightarrow> Stack (ApplyOption_pointee rt sprintf e opts) \<noteq> None) \<and>
   (make_fails rt (final_depth opts 0) = None \<longrightarrow>
      ApplyOption rt sprintf (Some e) opts = Inr (Some (ApplyOption_pointee rt sprintf e opts))) \<and>
   (\<not> list_ex sets_stack opts \<longrightarrow>
      ApplyOption rt sprintf (Some e) opts = Inr (Some (ApplyOption_pointee rt sprintf e opts))) \<and>
   (\<forall>q. make_fails rt (final_depth opts 0) = Some q \<longrightarrow>
      ApplyOption rt sprintf (Some e) opts = Inl q)"
proof -
  have 0: "ApplyOption rt sprintf p [] = Inr p" by (simp add: ApplyOption_def)
  have r1: "make_fails rt (final_depth opts 0) = None \<longrightarrow>
      ApplyOption rt sprintf (Some e) opts = Inr (Some (ApplyOption_pointee rt sprintf e opts))"
    by (simp add: ApplyOption_result)
  have r2: "\<not> list_ex sets_stack opts \<longrightarrow>
      ApplyOption rt sprintf (Some e) opts = Inr (Some (ApplyOption_pointee rt sprintf e opts))"
    by (simp add: ApplyOption_result final_depth_none make_fails_zero)
  have r3: "\<forall>q. make_fails rt (final_depth opts 0) = Some q \<longrightarrow>
      ApplyOption rt sprintf (Some e) opts = Inl q"
    by (simp add: ApplyOption_result)
  show ?thesis
    using 0 r1 r2 r3 ApplyOption_untargeted [where e = e and opts = opts and rt = rt and sp = sprintf]
    by (intro conjI)
qed

text \<open>
  A code and a chain option leave message, flag, cause and stack as they were; so does a
  code option followed by a capture that panics.
\<close>

theorem ApplyOption_frame_witness:
  "ApplyOption rt_app Sprintf (Some e0) [] = Inr (Some e0) \<and>
   (\<exists>e'. ApplyOption rt_app Sprintf (Some e0) [WithCode ''E2'', NilOption, WithChain [''api'']]
            = Inr (Some e') \<and>
      Msg e' = ''orig %s'' \<and> System e' \<and>
      Cause e' = ErrForeign ''*errors.errorString'' ''disk full'' \<and> Stack e' = Some [1, 2] \<and>
      Code e' \<noteq> [] \<and> prefix [''svc''] (Chain e')) \<and>
   ApplyOption rt_app Sprintf (Some e0) [WithCode ''E2'', WithStack [9223372036854775807]]
     = Inl MakeSliceLenOutOfRange \<and>
   Msg (ApplyOption_pointee rt_app Sprintf e0 [WithCode ''E2'', WithStack [9223372036854775807]])
     = ''orig %s'' \<and>
   Stack (ApplyOption_pointee rt_app Sprintf e0 [WithCode ''E2'', WithStack [9223372036854775807]])
     = Some [1, 2]"
proof -
  let ?o = "[WithCode ''E2'', NilOption, WithChain [''api'']]"
  let ?big = "[WithCode ''E2'', WithStack [9223372036854775807]]"
  have e: "Msg e0 = ''orig %s''" "System e0" "Code e0 \<noteq> []" "Chain e0 = [''svc'']"
    "Cause e0 = ErrForeign ''*errors.errorString'' ''disk full''" "Stack e0 = Some [1, 2]"
    by (simp_all add: e0_def)
  have n: "\<not> list_ex sets_msg ?o" "\<not> list_ex sets_cause ?o" "\<not> list_ex sets_stack ?o"
    "\<not> list_ex sets_msg ?big"
    by (simp_all add: sets_msg_def)
  have f: "make_fails rt_app (final_depth ?big 0) = Some MakeSliceLenOutOfRange"
    by (simp add: stack_depth_def make_fails_def)
  note t0 = ApplyOption_frame [of rt_app Sprintf "Some e0" "[]" e0]
  note t1 = ApplyOption_frame [of rt_app Sprintf "Some e0" ?o e0]
  note t2 = ApplyOption_frame [of rt_app Sprintf "Some e0" ?big e0]
  have 1: "ApplyOption rt_app Sprintf (Some e0) [] = Inr (Some e0)"
    using t0 by blast
  have r: "ApplyOption rt_app Sprintf (Some e0) ?o
             = Inr (Some (ApplyOption_pointee rt_app Sprintf e0 ?o))"
    using t1 n(3) by blast
  have p: "Msg (ApplyOption_pointee rt_app Sprintf e0 ?o) = Msg e0"
    "System (ApplyOption_pointee rt_app Sprintf e0 ?o)"
    "Cause (ApplyOption_pointee rt_app Sprintf e0 ?o) = Cause e0"
    "Stack (ApplyOption_pointee rt_app Sprintf e0 ?o) = Stack e0"
    "Code (ApplyOption_pointee rt_app Sprintf e0 ?o) \<noteq> []"
    "prefix (Chain e0) (Chain (ApplyOption_pointee rt_app Sprintf e0 ?o))"
    using t1 n e(2,3) by blast+
  have 2: "\<exists>e'. ApplyOption rt_app Sprintf (Some e0) ?o = Inr (Some e') \<and>
      Msg e' = ''orig %s'' \<and> System e' \<and>
      Cause e' = ErrForeign ''*errors.errorString'' ''disk full'' \<and> Stack e' = Some [1, 2] \<and>
      Code e' \<noteq> [] \<and> prefix [''svc''] (Chain e')"
    using r p unfolding e by blast
  have 3: "ApplyOption rt_app Sprintf (Some e0) ?big = Inl MakeSliceLenOutOfRange"
    using t2 f by blast
  have 4: "Msg (ApplyOption_pointee rt_app Sprintf e0 ?big) = Msg e0"
    using t2 n(4) by blast
  have 5: "Stack (ApplyOption_pointee rt_app Sprintf e0 ?big) = Stack e0"
    unfolding ApplyOption_pointee_fields f by simp
  show ?thesis using 1 2 3 4 5 unfolding e by (intro conjI)
qed

text \<open>
  C8. When the system flag of an error value is set, it is set in the value after
  \<open>ApplyOption\<close> however the call ends, in whatever \<open>ApplyOption\<close> and \<open>Clone\<close>
  return, and in the result of every mutator method. \<open>ApplyOption\<close>, \<open>Clone\<close> and
  the method \<open>WithStack\<close> return whenever their capture can allocate its depth.
\<close>

theorem System_never_reset:
  assumes "System e"
  shows "System (ApplyOption_pointee rt sprintf e opts) \<and>
         (\<forall>r. ApplyOption rt sprintf (Some e) opts = Inr r \<longrightarrow> (\<exists>e'. r = Some e' \<and> System e')) \<and>
         (\<forall>r. Clone rt sprintf (Some e) opts = Inr r \<longrightarrow> (\<exists>e'. r = Some e' \<and> System e')) \<and>
         (make_fails rt (final_depth opts 0) = None \<longrightarrow>
            (\<exists>e'. ApplyOption rt sprintf (Some e) opts = Inr (Some e') \<and> System e') \<and>
            (\<exists>e'. Clone rt sprintf (Some e) opts = Inr (Some e') \<and> System e')) \<and>
         System (Error_WithSystem e) \<and> System (Error_WithCode e c) \<and>
         System (Error_WithMsg e m) \<and> System (Error_WithMsgArgs sprintf e args) \<and>
         System (Error_WithMsgFormat sprintf e format args) \<and>
         System (Error_WithChain e ch) \<and> System (Error_WithCause e ca) \<and>
         (\<forall>e'. Error_WithStack rt e ds = Inr e' \<longrightarrow> System e') \<and>
         (make_fails rt (stack_depth ds) = None \<longrightarrow>
            (\<exists>e'. Error_WithStack rt e ds = Inr e' \<and> System e'))"
proof -
  have p: "System (ApplyOption_pointee rt sprintf b opts)" if "System b" for b
    using that by (simp add: ApplyOption_pointee_fields)
  have g: "\<forall>r. ApplyOption rt sprintf (Some b) opts = Inr r \<longrightarrow> (\<exists>e'. r = Some e' \<and> System e')"
    if "System b" for b
    using p [OF that] by (auto simp add: ApplyOption_result split: option.splits)
  have h: "make_fails rt (final_depth opts 0) = None \<longrightarrow>
      (\<exists>e'. ApplyOption rt sprintf (Some b) opts = Inr (Some e') \<and> System e')"
    if "System b" for b
    using p [OF that] by (simp add: ApplyOption_result)
  let ?c = "Error (Code e) (Msg e) (System e) (Chain e) (Cause e) None"
  have c: "Clone rt sprintf (Some e) opts = ApplyOption rt sprintf (Some ?c) opts"
    by (simp add: Clone_def)
  have sc: "System ?c" using assms by simp
  have 1: "System (ApplyOption_pointee rt sprintf e opts)" using assms by (rule p)
  have 2: "\<forall>r. ApplyOption rt sprintf (Some e) opts = Inr r \<longrightarrow> (\<exists>e'. r = Some e' \<and> System e')"
    using assms by (rule g)
  have 3: "\<forall>r. Clone rt sprintf (Some e) opts = Inr r \<longrightarrow> (\<exists>e'. r = Some e' \<and> System e')"
    unfolding c using sc by (rule g)
  have 4: "make_fails rt (final_depth opts 0) = None \<longrightarrow>
            (\<exists>e'. ApplyOption rt sprintf (Some e) opts = Inr (Some e') \<and> System e') \<and>
            (\<exists>e'. Clone rt sprintf (Some e) opts = Inr (Some e') \<and> System e')"
    unfolding c using h [OF assms] h [OF sc] by blast
  have 5: "System (Error_WithSystem e) \<and> System (Error_WithCode e c) \<and>
         System (Error_WithMsg e m) \<and> System (Error_WithMsgArgs sprintf e args) \<and>
         System (Error_WithMsgFormat sprintf e format args) \<and>
         System (Error_WithChain e ch) \<and> System (Error_WithCause e ca)"
    using assms
    by (simp add: Error_WithSystem_def Error_WithCode_def Error_WithMsg_def
        Error_WithMsgArgs_def Error_WithMsgFormat_def Error_WithChain_def
        Error_WithCause_def sel_set)
  have 6: "\<forall>e'. Error_WithStack rt e ds = Inr e' \<longrightarrow> System e'"
    using assms by (auto simp add: Error_WithStack_result sel_set split: option.splits)
  have 7: "make_fails rt (stack_depth ds) = None \<longrightarrow>
            (\<exists>e'. Error_WithStack rt e ds = Inr e' \<and> System e')"
    using assms by (simp add: Error_WithStack_result sel_set)
  show ?thesis using 1 2 3 4 5 6 7 by (intro conjI) simp_all
qed

theorem System_never_reset_witness:
  "(\<exists>e'. ApplyOption rt_app Sprintf (Some e0) [WithCode ''E2'', WithMsg ''m''] = Inr (Some e') \<and>
      System e') \<and>
   (\<exists>e'. Clone rt_app Sprintf (Some e0) [WithStack [2]] = Inr (Some e') \<and> System e') \<and>
   System (Error_WithSystem e0) \<and> System (Error_WithCode e0 []) \<and>
   (\<exists>e'. Error_WithStack rt_app e0 [] = Inr e' \<and> System e') \<and>
   System (ApplyOption_pointee rt_app Sprintf e0 [WithStack [9223372036854775807]])"
proof -
  have h: "System e0" by (simp add: e0_def)
  have d1: "make_fails rt_app (final_depth [WithCode ''E2'', WithMsg ''m''] 0) = None"
    and d2: "make_fails rt_app (final_depth [WithStack [2]] 0) = None"
    and d3: "make_fails rt_app (stack_depth []) = None"
    by (simp_all add: rt_app_make_small stack_depth_def)
  note t1 = System_never_reset [OF h, where rt = rt_app and sprintf = Sprintf
      and opts = "[WithCode ''E2'', WithMsg ''m'']" and c = "[]" and m = "[]" and args = "[]"
      and format = "[]" and ch = "[]" and ca = ErrNil and ds = "[]"]
  note t2 = System_never_reset [OF h, where rt = rt_app and sprintf = Sprintf
      and opts = "[WithStack [2]]" and c = "[]" and m = "[]" and args = "[]"
      and format = "[]" and ch = "[]" and ca = ErrNil and ds = "[]"]
  note t3 = System_never_reset [OF h, where rt = rt_app and sprintf = Sprintf
      and opts = "[WithStack [9223372036854775807]]" and c = "[]" and m = "[]" and args = "[]"
      and format = "[]" and ch = "[]" and ca = ErrNil and ds = "[]"]
  have 1: "\<exists>e'. ApplyOption rt_app Sprintf (Some e0) [WithCode ''E2'', WithMsg ''m'']
              = Inr (Some e') \<and> System e'"
    using t1 d1 by blast
  have 2: "\<exists>e'. Clone rt_app Sprintf (Some e0) [WithStack [2]] = Inr (Some e') \<and> System e'"
    using t2 d2 by blast
  have 3: "System (Error_WithSystem e0) \<and> System (Error_WithCode e0 [])"
    using t1 by blast
  have 4: "\<exists>e'. Error_WithStack rt_app e0 [] = Inr e' \<and> System e'"
    using t1 d3 by blast
  have 5: "System (ApplyOption_pointee rt_app Sprintf e0 [WithStack [9223372036854775807]])"
    using t3 by blast
  show ?thesis using 1 2 3 4 5 by (intro conjI) simp_all
qed

subsection \<open>Constructors\<close>

text \<open>
  C3. \<open>Clone\<close> of a non-nil error value merges its options into a new value that has
  the code, message, system flag, chain and cause of the source and no stack; with no
  options that value is the result. After the merge, every field of the new value that no
  option targets is the source's, and its stack is absent unless the list has a
  \<open>WithStack\<close> option, which fills it by a capture of its own. \<open>Clone\<close> returns the
  new value unless that capture cannot allocate its depth.
\<close>

theorem Clone_copies_fields_not_stack:
  "\<exists>c. Code c = Code b \<and> Msg c = Msg b \<and> System c = System b \<and> Chain c = Chain b \<and>
        Cause c = Cause b \<and> Stack c = None \<and>
        Clone rt sprintf (Some b) [] = Inr (Some c) \<and>
        Clone rt sprintf (Some b) opts = ApplyOption rt sprintf (Some c) opts \<and>
        (\<not> list_ex sets_code opts \<longrightarrow> Code (ApplyOption_pointee rt sprintf c opts) = Code b) \<and>
        (\<not> list_ex sets_msg opts \<longrightarrow> Msg (ApplyOption_pointee rt sprintf c opts) = Msg b) \<and>
        (\<not> list_ex sets_system opts \<longrightarrow>
           System (ApplyOption_pointee rt sprintf c opts) = System b) \<and>
        (\<not> list_ex sets_chain opts \<longrightarrow>
           Chain (ApplyOption_pointee rt sprintf c opts) = Chain b) \<and>
        (\<not> list_ex sets_cause opts \<longrightarrow>
           Cause (ApplyOption_pointee rt sprintf c opts) = Cause b) \<and>
        (\<not> list_ex sets_stack opts \<longrightarrow> Stack (ApplyOption_pointee rt sprintf c opts) = None) \<and>
        (make_fails rt (final_depth opts 0) = None \<longrightarrow>
           Clone rt sprintf (Some b) opts = Inr (Some (ApplyOption_pointee rt sprintf c opts)) \<and>
           (list_ex sets_stack opts \<longrightarrow>
              Stack (ApplyOption_pointee rt sprintf c opts) =
                Some (runtime_Callers rt (callers_scan rt 3 3) (nat (final_depth opts 0))))) \<and>
        (\<forall>q. make_fails rt (final_depth opts 0) = Some q \<longrightarrow>
           list_ex sets_stack opts \<and> Clone rt sprintf (Some b) opts = Inl q \<and>
           Stack (ApplyOption_pointee rt sprintf c opts) = None)"
proof -
  let ?c = "Error (Code b) (Msg b) (System b) (Chain b) (Cause b) None"
  let ?p = "ApplyOption_pointee rt sprintf ?c opts"
  have c: "Clone rt sprintf (Some b) opts = ApplyOption rt sprintf (Some ?c) opts"
    by (simp add: Clone_def)
  have 1: "Code ?c = Code b \<and> Msg ?c = Msg b \<and> System ?c = System b \<and> Chain ?c = Chain b \<and>
        Cause ?c = Cause b \<and> Stack ?c = None \<and> Clone rt sprintf (Some b) [] = Inr (Some ?c)"
    by (simp add: Clone_def ApplyOption_def)
  note u = ApplyOption_untargeted [where e = ?c and opts = opts and rt = rt and sp = sprintf]
  have f: "(\<not> list_ex sets_code opts \<longrightarrow> Code ?p = Code b) \<and>
              (\<not> list_ex sets_msg opts \<longrightarrow> Msg ?p = Msg b) \<and>
              (\<not> list_ex sets_system opts \<longrightarrow> System ?p = System b) \<and>
              (\<not> list_ex sets_chain opts \<longrightarrow> Chain ?p = Chain b) \<and>
              (\<not> list_ex sets_cause opts \<longrightarrow> Cause ?p = Cause b) \<and>
              (\<not> list_ex sets_stack opts \<longrightarrow> Stack ?p = None)"
    using u(1-6) by simp
  have 2: "make_fails rt (final_depth opts 0) = None \<longrightarrow>
           Clone rt sprintf (Some b) opts = Inr (Some ?p) \<and>
           (list_ex sets_stack opts \<longrightarrow>
              Stack ?p = Some (runtime_Callers rt (callers_scan rt 3 3)
                           (nat (final_depth opts 0))))"
    unfolding c by (simp add: ApplyOption_result ApplyOption_pointee_fields)
  have 3: "\<forall>q. make_fails rt (final_depth opts 0) = Some q \<longrightarrow>
           list_ex sets_stack opts \<and> Clone rt sprintf (Some b) opts = Inl q \<and> Stack ?p = None"
  proof (intro allI impI conjI)
    fix q
    assume q: "make_fails rt (final_depth opts 0) = Some q"
    show "list_ex sets_stack opts"
    proof (rule ccontr)
      assume "\<not> list_ex sets_stack opts"
      then have "final_depth opts 0 = 0" by (rule final_depth_none)
      with q show False by (simp add: make_fails_zero)
    qed
    show "Clone rt sprintf (Some b) opts = Inl q"
      unfolding c using q by (simp add: ApplyOption_result)
    show "Stack ?p = None"
      using q by (simp add: ApplyOption_pointee_fields)
  qed
  show ?thesis
    using 1 c f 2 3 by (intro exI [of _ ?c] conjI) simp_all
qed

text \<open>
  The source's stack \<open>[1, 2]\<close> is not copied; \<open>WithStack(2)\<close> captures the two
  frames of the application.
\<close>

theorem Clone_copies_fields_not_stack_witness:
  "Clone rt_app Sprintf (Some e0) [] =
     Inr (Some (Error ''E1'' ''orig %s'' True [''svc'']
                  (ErrForeign ''*errors.errorString'' ''disk full'') None)) \<and>
   (\<exists>e'. Clone rt_app Sprintf (Some e0) [WithStack [2]] = Inr (Some e') \<and>
      Code e' = ''E1'' \<and> Msg e' = ''orig %s'' \<and> System e' \<and> Chain e' = [''svc''] \<and>
      Cause e' = ErrForeign ''*errors.errorString'' ''disk full'' \<and> Stack e' = Some [13, 14])"
proof -
  let ?o = "[WithStack [2]]"
  have d: "final_depth ?o 0 = 2" by (simp add: stack_depth_def)
  have ok: "make_fails rt_app (final_depth ?o 0) = None"
    unfolding d by (rule rt_app_make_small)
  have s: "runtime_Callers rt_app 4 (nat 2) = [13, 14]"
    by (simp add: runtime_Callers_def rt_app_def)
  have n: "\<not> list_ex sets_code ?o" "\<not> list_ex sets_msg ?o" "\<not> list_ex sets_system ?o"
    "\<not> list_ex sets_chain ?o" "\<not> list_ex sets_cause ?o" "list_ex sets_stack ?o"
    by (simp_all add: sets_msg_def)
  have e: "Code e0 = ''E1''" "Msg e0 = ''orig %s''" "System e0" "Chain e0 = [''svc'']"
    "Cause e0 = ErrForeign ''*errors.errorString'' ''disk full''"
    by (simp_all add: e0_def)
  from Clone_copies_fields_not_stack [of e0 rt_app Sprintf "[]"]
  obtain c where c: "Code c = Code e0" "Msg c = Msg e0" "System c = System e0"
    "Chain c = Chain e0" "Cause c = Cause e0" "Stack c = None"
    "Clone rt_app Sprintf (Some e0) [] = Inr (Some c)"
    by blast
  have "c = Error ''E1'' ''orig %s'' True [''svc'']
                  (ErrForeign ''*errors.errorString'' ''disk full'') None"
    using c(1-6) e by (cases c) simp
  with c(7) have 1: "Clone rt_app Sprintf (Some e0) [] =
     Inr (Some (Error ''E1'' ''orig %s'' True [''svc'']
                  (ErrForeign ''*errors.errorString'' ''disk full'') None))"
    by simp
  from Clone_copies_fields_not_stack [of e0 rt_app Sprintf ?o] ok n
  obtain c' where "Clone rt_app Sprintf (Some e0) ?o
      = Inr (Some (ApplyOption_pointee rt_app Sprintf c' ?o))"
    "Code (ApplyOption_pointee rt_app Sprintf c' ?o) = Code e0"
    "Msg (ApplyOption_pointee rt_app Sprintf c' ?o) = Msg e0"
    "System (ApplyOption_pointee rt_app Sprintf c' ?o) = System e0"
    "Chain (ApplyOption_pointee rt_app Sprintf c' ?o) = Chain e0"
    "Cause (ApplyOption_pointee rt_app Sprintf c' ?o) = Cause e0"
    "Stack (ApplyOption_pointee rt_app Sprintf c' ?o) =
       Some (runtime_Callers rt_app (callers_scan rt_app 3 3) (nat (final_depth ?o 0)))"
    by blast
  then have 2: "\<exists>e'. Clone rt_app Sprintf (Some e0) ?o = Inr (Some e') \<and>
      Code e' = ''E1'' \<and> Msg e' = ''orig %s'' \<and> System e' \<and> Chain e' = [''svc''] \<and>
      Cause e' = ErrForeign ''*errors.errorString'' ''disk full'' \<and> Stack e' = Some [13, 14]"
    using e(3) unfolding d rt_app_scan s e(1,2,4,5) by blast
  show ?thesis using 1 2 by (rule conjI)
qed

text \<open>
  C2, as amended. Each of the four wrapping constructors returns the nil pointer for the
  nil error, for every option list. For an error that is not nil and whose \<open>Error()\<close>
  returns the text \<open>t\<close>, and options whose capture, if any, can allocate its depth, each
  returns an error value with the message and the cause the options make of \<open>t\<close> and
  of that error: the message is \<open>t\<close> unless the last template option is not empty or
  the last operands are not empty, and the cause is that error unless the last
  \<open>WithCause\<close> carries an error that is not nil. When the capture cannot allocate its
  depth, each of the four panics.
\<close>

theorem wrap_constructors:
  "NewWrap rt sprintf ErrNil opts = Inr None \<and>
   NewSystemWrap rt sprintf ErrNil opts = Inr None \<and>
   NewCodeWrap rt sprintf c ErrNil opts = Inr None \<and>
   NewSystemCodeWrap rt sprintf c ErrNil opts = Inr None \<and>
   (err \<noteq> ErrNil \<and> error_Error err = Inr t \<and> make_fails rt (final_depth opts 0) = None \<longrightarrow>
      wraps sprintf (NewWrap rt sprintf err opts) t err opts \<and>
      wraps sprintf (NewSystemWrap rt sprintf err opts) t err opts \<and>
      wraps sprintf (NewCodeWrap rt sprintf c err opts) t err opts \<and>
      wraps sprintf (NewSystemCodeWrap rt sprintf c err opts) t err opts) \<and>
   (final_template sprintf opts [] = [] \<and> final_args opts [] = [] \<longrightarrow>
      merged_msg sprintf t opts = t) \<and>
   (final_cause opts ErrNil = ErrNil \<longrightarrow> merged_cause err opts = err) \<and>
   (\<forall>q. err \<noteq> ErrNil \<and> error_Error err = Inr t \<and>
        make_fails rt (final_depth opts 0) = Some q \<longrightarrow>
      NewWrap rt sprintf err opts = Inl q \<and>
      NewSystemWrap rt sprintf err opts = Inl q \<and>
      NewCodeWrap rt sprintf c err opts = Inl q \<and>
      NewSystemCodeWrap rt sprintf c err opts = Inl q)"
proof -
  have 1: "NewWrap rt sprintf ErrNil opts = Inr None \<and>
      NewSystemWrap rt sprintf ErrNil opts = Inr None \<and>
      NewCodeWrap rt sprintf c ErrNil opts = Inr None \<and>
      NewSystemCodeWrap rt sprintf c ErrNil opts = Inr None"
    by (simp add: NewWrap_def NewSystemWrap_def NewCodeWrap_def NewSystemCodeWrap_def)
  have 2: "err \<noteq> ErrNil \<and> error_Error err = Inr t \<and>
        make_fails rt (final_depth opts 0) = None \<longrightarrow>
      wraps sprintf (NewWrap rt sprintf err opts) t err opts \<and>
      wraps sprintf (NewSystemWrap rt sprintf err opts) t err opts \<and>
      wraps sprintf (NewCodeWrap rt sprintf c err opts) t err opts \<and>
      wraps sprintf (NewSystemCodeWrap rt sprintf c err opts) t err opts"
    by (simp add: NewWrap_def NewSystemWrap_def NewCodeWrap_def NewSystemCodeWrap_def
        wraps_base)
  have 3: "final_template sprintf opts [] = [] \<and> final_args opts [] = [] \<longrightarrow>
      merged_msg sprintf t opts = t"
    by (simp add: merged_msg_def)
  have 4: "final_cause opts ErrNil = ErrNil \<longrightarrow> merged_cause err opts = err"
    by (simp add: merged_cause_def)
  have 5: "\<forall>q. err \<noteq> ErrNil \<and> error_Error err = Inr t \<and>
        make_fails rt (final_depth opts 0) = Some q \<longrightarrow>
      NewWrap rt sprintf err opts = Inl q \<and>
      NewSystemWrap rt sprintf err opts = Inl q \<and>
      NewCodeWrap rt sprintf c err opts = Inl q \<and>
      NewSystemCodeWrap rt sprintf c err opts = Inl q"
    by (simp add: NewWrap_def NewSystemWrap_def NewCodeWrap_def NewSystemCodeWrap_def
        fails_base)
  show ?thesis using 1 2 3 4 5 by (intro conjI) simp_all
qed

text \<open>
  Options the merge ignores, an empty template, a nil cause and empty operands, leave
  the text and the cause of the wrapped error in place.
\<close>

theorem wrap_constructors_witness:
  "NewWrap rt_app Sprintf ErrNil [WithSystem] = Inr None \<and>
   (\<exists>e. NewCodeWrap rt_app Sprintf ''E5'' disk_full
           [WithSystem, WithMsg [], WithCause ErrNil, WithMsgArgs []] = Inr (Some e) \<and>
      Msg e = ''disk full'' \<and> Cause e = disk_full)"
proof -
  let ?o = "[WithSystem, WithMsg [], WithCause ErrNil, WithMsgArgs []]"
  have h: "disk_full \<noteq> ErrNil \<and> error_Error disk_full = Inr ''disk full'' \<and>
      make_fails rt_app (final_depth ?o 0) = None"
    by (simp add: disk_full_def rt_app_make_small)
  have f: "final_template Sprintf ?o [] = [] \<and> final_args ?o [] = []"
    "final_cause ?o ErrNil = ErrNil"
    by simp_all
  note t1 = wrap_constructors [of rt_app Sprintf "[WithSystem]" "''E5''" disk_full "''disk full''"]
  note t2 = wrap_constructors [of rt_app Sprintf ?o "''E5''" disk_full "''disk full''"]
  have n: "NewWrap rt_app Sprintf ErrNil [WithSystem] = Inr None"
    using t1 by blast
  have w: "wraps Sprintf (NewCodeWrap rt_app Sprintf ''E5'' disk_full ?o) ''disk full'' disk_full ?o"
    using t2 h by blast
  have m: "merged_msg Sprintf ''disk full'' ?o = ''disk full''"
    using t2 f(1) by blast
  have c: "merged_cause disk_full ?o = disk_full"
    using t2 f(2) by blast
  from w have "\<exists>e. NewCodeWrap rt_app Sprintf ''E5'' disk_full ?o = Inr (Some e) \<and>
      Msg e = ''disk full'' \<and> Cause e = disk_full"
    unfolding wraps_def m c
    by (cases "NewCodeWrap rt_app Sprintf ''E5'' disk_full ?o")
      (auto split: option.splits)
  with n show ?thesis by (rule conjI)
qed

text \<open>
  C2 as stated, for every option list, fails: \<open>WithMsg\<close> replaces the text of the
  wrapped error, \<open>WithCause\<close> replaces the wrapped error as the cause, and a capture
  of a depth that cannot be allocated panics.
\<close>

theorem wrap_message_overridden:
  "error_Error disk_full = Inr ''disk full'' \<and>
   map_sum id (map_option Msg) (NewWrap rt_app Sprintf disk_full [WithMsg ''retry later''])
     = Inr (Some ''retry later'') \<and>
   map_sum id (map_option Cause)
     (NewCodeWrap rt_app Sprintf ''E5'' disk_full [WithCause (ErrForeign ''*fs.PathError'' ''open /x'')])
     = Inr (Some (ErrForeign ''*fs.PathError'' ''open /x'')) \<and>
   NewWrap rt_app Sprintf disk_full [WithStack [9223372036854775807]]
     = Inl MakeSliceLenOutOfRange"
proof -
  have 1: "error_Error disk_full = Inr ''disk full''"
    by (simp add: disk_full_def)
  have 2: "map_sum id (map_option Msg) (NewWrap rt_app Sprintf disk_full [WithMsg ''retry later''])
     = Inr (Some ''retry later'')"
    by code_simp
  have 3: "map_sum id (map_option Cause)
     (NewCodeWrap rt_app Sprintf ''E5'' disk_full [WithCause (ErrForeign ''*fs.PathError'' ''open /x'')])
     = Inr (Some (ErrForeign ''*fs.PathError'' ''open /x''))"
    by code_simp
  have 4: "NewWrap rt_app Sprintf disk_full [WithStack [9223372036854775807]]
     = Inl MakeSliceLenOutOfRange"
    by (simp add: NewWrap_def disk_full_def ApplyOption_result stack_depth_def make_fails_def)
  show ?thesis using 1 2 3 4 by (intro conjI)
qed

text \<open>
  A nil \<open>*Error\<close> stored in an error interface is not the nil error; wrapping it
  calls its \<open>Error()\<close> method, which panics.
\<close>

lemma NewWrap_nil_pointer: "NewWrap rt sprintf (ErrPtr None) opts = Inl NilPointerDereference"
  by (simp add: NewWrap_def)

subsection \<open>Stack capture\<close>

text \<open>
  C5, as amended. When no position from \<open>skip\<close> up to 14 holds a frame outside the
  package (or in a test file), the boundary stays the requested \<open>skip\<close>, and for a
  depth that can be allocated the trace is what \<open>runtime.Callers\<close> yields from there.
  When \<open>k\<close> is the first such position, the boundary is \<open>k + 1\<close>; as
  \<open>runtime.Callers\<close> counts its own frame, the trace then starts with the frame at
  position \<open>k\<close> itself. For a depth that cannot be allocated \<open>callers\<close> panics.
\<close>

theorem callers_skip_boundary:
  "((\<forall>i. skip \<le> i \<and> i < 15 \<longrightarrow> \<not> caller_frame rt i) \<longrightarrow>
      callers_scan rt skip skip = skip \<and>
      (make_fails rt d = None \<longrightarrow>
         callers rt skip d = Inr (take (nat d) (drop skip (selfPC rt # map pc (frames rt)))))) \<and>
   (\<forall>k. skip \<le> k \<and> k < 15 \<and> caller_frame rt k \<and>
         (\<forall>i. skip \<le> i \<and> i < k \<longrightarrow> \<not> caller_frame rt i) \<longrightarrow>
      callers_scan rt skip skip = k + 1 \<and>
      (make_fails rt d = None \<longrightarrow>
         callers rt skip d = Inr (take (nat d) (drop k (map pc (frames rt)))) \<and>
         (0 < d \<longrightarrow> (\<exists>rest. callers rt skip d = Inr (pc (frames rt ! k) # rest))))) \<and>
   (\<forall>q. make_fails rt d = Some q \<longrightarrow> callers rt skip d = Inl q)"
proof (intro conjI impI allI)
  assume "\<forall>i. skip \<le> i \<and> i < 15 \<longrightarrow> \<not> caller_frame rt i"
  then show "callers_scan rt skip skip = skip"
    by (intro callers_scan_none) simp
next
  assume "\<forall>i. skip \<le> i \<and> i < 15 \<longrightarrow> \<not> caller_frame rt i" and "make_fails rt d = None"
  then show "callers rt skip d = Inr (take (nat d) (drop skip (selfPC rt # map pc (frames rt))))"
    using callers_boundary_returning [of rt d skip] by blast
next
  fix k
  assume "skip \<le> k \<and> k < 15 \<and> caller_frame rt k \<and>
               (\<forall>i. skip \<le> i \<and> i < k \<longrightarrow> \<not> caller_frame rt i)"
  then show "callers_scan rt skip skip = k + 1"
    by (intro callers_scan_first) simp_all
next
  fix k
  assume k: "skip \<le> k \<and> k < 15 \<and> caller_frame rt k \<and>
               (\<forall>i. skip \<le> i \<and> i < k \<longrightarrow> \<not> caller_frame rt i)"
    and ok: "make_fails rt d = None"
  from callers_boundary_returning [OF ok, of skip] k
  show "callers rt skip d = Inr (take (nat d) (drop k (map pc (frames rt))))"
    by blast
  assume "0 < d"
  with callers_boundary_returning [OF ok, of skip] k
  show "\<exists>rest. callers rt skip d = Inr (pc (frames rt ! k) # rest)"
    by blast
next
  fix q
  assume "make_fails rt d = Some q"
  then show "callers rt skip d = Inl q" by (rule callers_fails)
qed

theorem callers_skip_boundary_witness:
  "callers_scan rt_lib 3 3 = 3 \<and> callers rt_lib 3 3 = Inr [102, 103, 104] \<and>
   callers_scan rt_app 3 3 = 4 \<and> callers rt_app 3 2 = Inr [13, 14] \<and>
   callers_scan rt_test 3 3 = 4 \<and> callers rt_test 3 3 = Inr [23, 24]"
proof -
  have n: "\<forall>i. 3 \<le> i \<and> i < 15 \<longrightarrow> \<not> caller_frame rt_lib i"
    using rt_lib_no_caller_frame by simp
  have f: "(3::nat) \<le> 3 \<and> (3::nat) < 15 \<and> caller_frame rt_app 3 \<and>
               (\<forall>i. 3 \<le> i \<and> i < 3 \<longrightarrow> \<not> caller_frame rt_app i)"
    using rt_app_first_caller_frame by auto
  have g: "(3::nat) \<le> 3 \<and> (3::nat) < 15 \<and> caller_frame rt_test 3 \<and>
               (\<forall>i. 3 \<le> i \<and> i < 3 \<longrightarrow> \<not> caller_frame rt_test i)"
    using rt_test_first_caller_frame by auto
  have l: "take 3 (drop 3 (selfPC rt_lib # map pc (frames rt_lib))) = [102, 103, 104]"
    using rt_lib_pcs by (simp add: runtime_Callers_def)
  have a: "take 2 (drop 3 (map pc (frames rt_app))) = [13, 14]"
    by (simp add: rt_app_def)
  have t: "take 3 (drop 3 (map pc (frames rt_test))) = [23, 24]"
    by (simp add: rt_test_def)
  from callers_skip_boundary [of 3 rt_lib 3] n l rt_make_three(1)
  have 1: "callers_scan rt_lib 3 3 = 3 \<and> callers rt_lib 3 3 = Inr [102, 103, 104]" by simp
  from callers_skip_boundary [of 3 rt_app 2] f a rt_app_make_small(2)
  have 2: "callers_scan rt_app 3 3 = 4 \<and> callers rt_app 3 2 = Inr [13, 14]" by auto
  from callers_skip_boundary [of 3 rt_test 3] g t rt_make_three(2)
  have 3: "callers_scan rt_test 3 3 = 4 \<and> callers rt_test 3 3 = Inr [23, 24]" by auto
  show ?thesis using 1 2 3 by simp
qed

text \<open>
  C5 as stated fails on a stack of twenty package frames: no position from 3 to 14 holds a
  frame outside the package, and the boundary is the requested skip 3, not the last
  position examined, 14; the trace is the frames from there. And for the largest depth an
  \<open>int\<close> holds the capture fails.
\<close>

theorem callers_fallback_is_requested_skip:
  "filter (caller_frame rt_lib) [3..<15] = [] \<and>
   callers_scan rt_lib 3 3 = 3 \<and> callers_scan rt_lib 3 3 \<noteq> 14 \<and>
   callers rt_lib 3 3 = Inr [102, 103, 104] \<and>
   callers rt_lib 3 9223372036854775807 = Inl MakeSliceLenOutOfRange"
proof -
  have 1: "filter (caller_frame rt_lib) [3..<15] = []"
    by (simp add: filter_empty_conv rt_lib_no_caller_frame)
  have 2: "callers rt_lib 3 3 = Inr [102, 103, 104]"
    by (simp add: callers_returns rt_make_three rt_lib_scan rt_lib_pcs)
  have 3: "callers rt_lib 3 9223372036854775807 = Inl MakeSliceLenOutOfRange"
    by (rule callers_fails) (simp add: make_fails_def)
  show ?thesis using 1 2 3 by (simp add: rt_lib_scan)
qed

text \<open>
  C6, as amended. The option and the method \<open>WithStack\<close> take the depth 3 when no
  depth is given and when the first depth given is zero or negative, and the first depth
  given when it is positive; so the depth asked for is never less than 1. When that depth
  can be allocated, the method and the merge store a trace of at most that many frames,
  and of at least one frame when the stack holds the three frames the skip of 3 takes for
  granted. When it cannot, both panic.
\<close>

theorem WithStack_depth_normalised:
  "depth (apply_option sprintf (WithStack []) acc) = 3 \<and>
   (d \<le> 0 \<longrightarrow>
      depth (apply_option sprintf (WithStack (d # ds)) acc) = 3 \<and>
      Error_WithStack rt b (d # ds) = Error_WithStack rt b []) \<and>
   (0 < d \<longrightarrow> depth (apply_option sprintf (WithStack (d # ds)) acc) = d) \<and>
   depth (apply_option sprintf (WithStack ds') acc) = stack_depth ds' \<and>
   1 \<le> stack_depth ds' \<and>
   (make_fails rt (stack_depth ds') = None \<longrightarrow>
      (\<exists>st. callers rt 3 (stack_depth ds') = Inr st \<and>
            Error_WithStack rt b ds' = Inr (set_Stack (Some st) b) \<and>
            ApplyOption rt sprintf (Some b) [WithStack ds'] = Inr (Some (set_Stack (Some st) b)) \<and>
            length st \<le> nat (stack_depth ds') \<and>
            (3 \<le> length (frames rt) \<longrightarrow> 1 \<le> length st))) \<and>
   (\<forall>q. make_fails rt (stack_depth ds') = Some q \<longrightarrow>
      Error_WithStack rt b ds' = Inl q \<and>
      ApplyOption rt sprintf (Some b) [WithStack ds'] = Inl q)"
proof -
  have 1: "depth (apply_option sprintf (WithStack []) acc) = 3"
    by (simp add: stack_depth_def)
  have 2: "d \<le> 0 \<longrightarrow>
      depth (apply_option sprintf (WithStack (d # ds)) acc) = 3 \<and>
      Error_WithStack rt b (d # ds) = Error_WithStack rt b []"
    by (simp add: stack_depth_def Error_WithStack_def)
  have 3: "0 < d \<longrightarrow> depth (apply_option sprintf (WithStack (d # ds)) acc) = d"
    by (simp add: stack_depth_def)
  have 4: "depth (apply_option sprintf (WithStack ds') acc) = stack_depth ds'"
    by simp
  have 5: "1 \<le> stack_depth ds'"
    using stack_depth_pos [of ds'] by simp
  have m: "merge_option rt sprintf b (apply_options sprintf [WithStack ds'] ErrorOption_zero)
      = (case callers rt 3 (stack_depth ds') of
           Inl q \<Rightarrow> (Some q, b) | Inr st \<Rightarrow> (None, set_Stack (Some st) b))"
    using stack_depth_pos [of ds']
    by (cases "callers rt 3 (stack_depth ds')")
      (simp_all add: merge_option_def ErrorOption_zero_def Let_def)
  have 6: "make_fails rt (stack_depth ds') = None \<longrightarrow>
      (\<exists>st. callers rt 3 (stack_depth ds') = Inr st \<and>
            Error_WithStack rt b ds' = Inr (set_Stack (Some st) b) \<and>
            ApplyOption rt sprintf (Some b) [WithStack ds'] = Inr (Some (set_Stack (Some st) b)) \<and>
            length st \<le> nat (stack_depth ds') \<and>
            (3 \<le> length (frames rt) \<longrightarrow> 1 \<le> length st))"
  proof
    assume ok: "make_fails rt (stack_depth ds') = None"
    let ?st = "runtime_Callers rt (callers_scan rt 3 3) (nat (stack_depth ds'))"
    have c: "callers rt 3 (stack_depth ds') = Inr ?st"
      using ok by (rule callers_returns)
    have w: "Error_WithStack rt b ds' = Inr (set_Stack (Some ?st) b)"
      by (simp add: Error_WithStack_def Let_def c)
    have a: "ApplyOption rt sprintf (Some b) [WithStack ds'] = Inr (Some (set_Stack (Some ?st) b))"
      using m by (simp add: ApplyOption_def Let_def c)
    have l: "length ?st \<le> nat (stack_depth ds')"
      using c by (rule callers_length)
    have n: "3 \<le> length (frames rt) \<longrightarrow> 1 \<le> length ?st"
    proof
      assume "3 \<le> length (frames rt)"
      moreover have "0 < nat (stack_depth ds')" using 5 by simp
      ultimately show "1 \<le> length ?st" by (rule trace_nonempty)
    qed
    show "\<exists>st. callers rt 3 (stack_depth ds') = Inr st \<and>
            Error_WithStack rt b ds' = Inr (set_Stack (Some st) b) \<and>
            ApplyOption rt sprintf (Some b) [WithStack ds'] = Inr (Some (set_Stack (Some st) b)) \<and>
            length st \<le> nat (stack_depth ds') \<and>
            (3 \<le> length (frames rt) \<longrightarrow> 1 \<le> length st)"
      using c w a l n by blast
  qed
  have 7: "\<forall>q. make_fails rt (stack_depth ds') = Some q \<longrightarrow>
      Error_WithStack rt b ds' = Inl q \<and>
      ApplyOption rt sprintf (Some b) [WithStack ds'] = Inl q"
  proof (intro allI impI)
    fix q
    assume "make_fails rt (stack_depth ds') = Some q"
    then have c: "callers rt 3 (stack_depth ds') = Inl q" by (rule callers_fails)
    show "Error_WithStack rt b ds' = Inl q \<and>
      ApplyOption rt sprintf (Some b) [WithStack ds'] = Inl q"
      using m by (simp add: Error_WithStack_def ApplyOption_def Let_def c)
  qed
  show ?thesis using 1 2 3 4 5 6 7 by (intro conjI)
qed

theorem WithStack_depth_normalised_witness:
  "depth (apply_option Sprintf (WithStack [0]) ErrorOption_zero) = 3 \<and>
   depth (apply_option Sprintf (WithStack [2, 9]) ErrorOption_zero) = 2 \<and>
   Error_WithStack rt_app e0 [- 1] = Error_WithStack rt_app e0 [] \<and>
   (\<exists>st. Error_WithStack rt_app e0 [- 1] = Inr (set_Stack (Some st) e0) \<and> 1 \<le> length st)"
proof -
  note t0 = WithStack_depth_normalised [of Sprintf ErrorOption_zero 0 "[]" rt_app e0 "[]"]
  note t2 = WithStack_depth_normalised [of Sprintf ErrorOption_zero 2 "[9]" rt_app e0 "[]"]
  note t1 = WithStack_depth_normalised [of Sprintf ErrorOption_zero "- 1" "[]" rt_app e0 "[- 1]"]
  have ok: "make_fails rt_app (stack_depth [- 1]) = None"
    by (simp add: stack_depth_def rt_app_make_small)
  have fr: "3 \<le> length (frames rt_app)" by (simp add: rt_app_def)
  have 1: "depth (apply_option Sprintf (WithStack [0]) ErrorOption_zero) = 3"
    using t0 by simp
  have 2: "depth (apply_option Sprintf (WithStack [2, 9]) ErrorOption_zero) = 2"
    using t2 by simp
  have 3: "Error_WithStack rt_app e0 [- 1] = Error_WithStack rt_app e0 []"
    using t1 by simp
  have 4: "\<exists>st. Error_WithStack rt_app e0 [- 1] = Inr (set_Stack (Some st) e0) \<and> 1 \<le> length st"
    using t1 ok fr by blast
  show ?thesis using 1 2 3 4 by (intro conjI)
qed

text \<open>
  C6 as stated fails: a requested depth of zero gives the depth 3, not 1, and three
  frames are captured; and the largest depth an \<open>int\<close> holds yields no frame at all
  but a panic.
\<close>

theorem WithStack_nonpositive_depth_is_three:
  "depth (apply_option Sprintf (WithStack [0]) ErrorOption_zero) = 3 \<and>
   depth (apply_option Sprintf (WithStack [0]) ErrorOption_zero) \<noteq> 1 \<and>
   map_sum id Stack (Error_WithStack rt_app e0 [0]) = Inr (Some [13, 14, 15]) \<and>
   map_sum id (map_option Stack) (New rt_app Sprintf ''boom'' [WithStack [- 5]])
     = Inr (Some (Some [13, 14, 15])) \<and>
   Error_WithStack rt_app e0 [9223372036854775807] = Inl MakeSliceLenOutOfRange"
proof -
  have 1: "depth (apply_option Sprintf (WithStack [0]) ErrorOption_zero) = 3"
    by (simp add: stack_depth_def)
  have 2: "map_sum id Stack (Error_WithStack rt_app e0 [0]) = Inr (Some [13, 14, 15])"
    by code_simp
  have 3: "map_sum id (map_option Stack) (New rt_app Sprintf ''boom'' [WithStack [- 5]])
     = Inr (Some (Some [13, 14, 15]))"
    by code_simp
  have 4: "Error_WithStack rt_app e0 [9223372036854775807] = Inl MakeSliceLenOutOfRange"
    by (simp add: Error_WithStack_result stack_depth_def make_fails_def)
  show ?thesis using 1 2 3 4 by simp
qed

text \<open>
  The earlier revision's \<open>WithStackDepth\<close> did replace such a depth by 1.
\<close>

lemma WithStackDepth_earlier_nonpositive: "d \<le> 0 \<Longrightarrow> WithStackDepth_earlier d = 1"
  by (simp add: WithStackDepth_earlier_def)

subsection \<open>Classification predicates\<close>

text \<open>
  C9, as amended. \<open>IsSystemError\<close> and \<open>IsNotSystemError\<close> never both return true.
  For a non-nil pointer to an error value \<open>IsBaseError\<close> returns true and exactly one of
  the two returns true, \<open>IsSystemError\<close> when the system flag is set. When
  \<open>IsBaseError\<close> returns false, both return false. When \<open>IsBaseError\<close> returns true
  and \<open>IsSystemError\<close> returns at all, \<open>IsNotSystemError\<close> returns its negation and
  the error is a non-nil pointer to an error value.
\<close>

theorem fault_predicates:
  "\<not> (IsSystemError err = Inr True \<and> IsNotSystemError err = Inr True) \<and>
   IsBaseError (ErrPtr (Some b)) = Inr True \<and>
   IsSystemError (ErrPtr (Some b)) = Inr (System b) \<and>
   IsNotSystemError (ErrPtr (Some b)) = Inr (\<not> System b) \<and>
   (IsBaseError err = Inr False \<longrightarrow>
      IsSystemError err = Inr False \<and> IsNotSystemError err = Inr False) \<and>
   (IsBaseError err = Inr True \<and> IsSystemError err = Inr s \<longrightarrow>
      IsNotSystemError err = Inr (\<not> s) \<and> (\<exists>b'. err = ErrPtr (Some b')))"
proof -
  have 1: "\<not> (IsSystemError err = Inr True \<and> IsNotSystemError err = Inr True)"
    by (auto simp add: IsSystemError_def IsNotSystemError_def
        split: option.splits if_splits sum.splits)
  have 2: "IsBaseError (ErrPtr (Some b)) = Inr True \<and>
       IsSystemError (ErrPtr (Some b)) = Inr (System b) \<and>
       IsNotSystemError (ErrPtr (Some b)) = Inr (\<not> System b)"
    by (simp add: IsBaseError_def IsSystemError_def IsNotSystemError_def)
  have 3: "IsBaseError err = Inr False \<longrightarrow>
      IsSystemError err = Inr False \<and> IsNotSystemError err = Inr False"
    by (auto simp add: IsBaseError_def IsSystemError_def IsNotSystemError_def
        split: option.splits)
  have 4: "IsBaseError err = Inr True \<and> IsSystemError err = Inr s \<longrightarrow>
      IsNotSystemError err = Inr (\<not> s) \<and> (\<exists>b'. err = ErrPtr (Some b'))"
  proof (cases err)
    case ErrNil
    then show ?thesis by (simp add: IsBaseError_def)
  next
    case (ErrPtr p)
    then show ?thesis
      by (cases p) (auto simp add: IsSystemError_def IsNotSystemError_def)
  next
    case (ErrForeign tn tx)
    then show ?thesis by (auto simp add: IsBaseError_def IsSystemError_def)
  qed
  show ?thesis using 1 2 3 4 by (intro conjI) simp_all
qed

theorem fault_predicates_witness:
  "IsBaseError (ErrPtr (Some e0)) = Inr True \<and> IsSystemError (ErrPtr (Some e0)) = Inr True \<and>
   IsNotSystemError (ErrPtr (Some e0)) = Inr False \<and>
   IsBaseError disk_full = Inr False \<and> IsSystemError disk_full = Inr False \<and>
   IsNotSystemError disk_full = Inr False"
proof -
  have h: "IsBaseError disk_full = Inr False"
    by (simp add: IsBaseError_def disk_full_def)
  have s: "System e0" by (simp add: e0_def)
  show ?thesis
    using fault_predicates [of "ErrPtr (Some e0)" e0] fault_predicates [of disk_full e0] h s
    by simp
qed

text \<open>
  C9 as stated fails for a nil \<open>*Error\<close> stored in an error interface, which is what
  a wrapping constructor's result for the nil error becomes when it is assigned to an
  \<open>error\<close>: \<open>IsBaseError\<close> returns true, and neither of the two fault predicates
  returns.
\<close>

theorem nil_pointer_is_structured_but_unclassified:
  "IsBaseError (ErrPtr None) = Inr True \<and>
   IsSystemError (ErrPtr None) = Inl NilPointerDereference \<and>
   IsNotSystemError (ErrPtr None) = Inl NilPointerDereference \<and>
   NewWrap rt_app Sprintf ErrNil [] = Inr None"
  by (simp add: IsBaseError_def IsSystemError_def IsNotSystemError_def NewWrap_def)

text \<open>
  C10. On the nil error each of the three predicates panics.
\<close>

theorem predicates_panic_on_nil:
  "IsBaseError ErrNil = Inl NilPointerDereference \<and>
   IsSystemError ErrNil = Inl NilPointerDereference \<and>
   IsNotSystemError ErrNil = Inl NilPointerDereference"
  by (simp add: IsBaseError_def IsSystemError_def IsNotSystemError_def)

end
